theory Spec2Isabelle
  imports Main
begin

section \<open>JavaScript values\<close>

text \<open>
  The tools are TypeScript programs; the values they handle at run time (parsed YAML and
  JSON, resolved references, request data) are JavaScript values. A string is a list of
  code units (only code units below 256 are representable). An object is the list of its
  own enumerable properties in enumeration order, with distinct keys; an array is the list
  of its elements. A built-in function, which a value inherits from its prototype, is given
  by its name and its \<open>length\<close>. No object has an own property named \<open>__proto__\<close>,
  \<open>toString\<close>, \<open>valueOf\<close> or \<open>toJSON\<close>, which would change what an assignment,
  \<open>String()\<close> and \<open>JSON.stringify\<close> do with the object.

  A finite number is given by the decomposition that the language definition uses to
  print it: a sign, the shortest decimal digit string \<open>s\<close> (as a natural number, \<open>0\<close> for
  zero) and the decimal exponent \<open>n\<close>, so that the value is \<open>0.s * 10^n\<close>. A Date object is
  given by what \<open>toISOString()\<close> returns (nothing for an invalid date, where the call
  raises a RangeError) and by what \<open>toString()\<close> returns.
\<close>

datatype jsnum = NaN | PosInfinity | NegInfinity | Finite bool nat int

datatype jsdate = InvalidDate | ValidDate string string

datatype jsval =
    JUndefined
  | JNull
  | JBool bool
  | JNum jsnum
  | JBigInt int
  | JStr string
  | JDate jsdate
  | JArr "jsval list"
  | JObj "(string \<times> jsval) list"
  | JFun string nat

datatype error = Error string | TypeError string | RangeError string

type_synonym 'a result = "error + 'a"

subsection \<open>Characters and joining\<close>

definition squote :: char where
  "squote = CHR 0x27"

definition dquote :: char where
  "dquote = CHR 0x22"

definition newline :: char where
  "newline = CHR 0x0A"

fun join :: "string \<Rightarrow> string list \<Rightarrow> string" where
  "join sep [] = []"
| "join sep [x] = x"
| "join sep (x # y # ys) = x @ sep @ join sep (y # ys)"

text \<open>\<open>Array.prototype.map\<close> with a callback that may throw: the first failure wins.\<close>

fun collect :: "'a result list \<Rightarrow> 'a list result" where
  "collect [] = Inr []"
| "collect (Inl e # rs) = Inl e"
| "collect (Inr x # rs) = (case collect rs of Inl e \<Rightarrow> Inl e | Inr xs \<Rightarrow> Inr (x # xs))"

subsection \<open>Printing numbers\<close>

definition digit_char :: "nat \<Rightarrow> char" where
  "digit_char d = ''0123456789'' ! (d mod 10)"

fun digits :: "nat \<Rightarrow> string" where
  "digits n = (if n < 10 then [digit_char n] else digits (n div 10) @ [digit_char n])"

declare digits.simps [simp del]

definition show_int :: "int \<Rightarrow> string" where
  "show_int i = (if i < 0 then CHR ''-'' # digits (nat (- i)) else digits (nat i))"

text \<open>\<open>Number::toString\<close> of the language definition, radix 10, for a finite number.\<close>

definition finite_str :: "bool \<Rightarrow> nat \<Rightarrow> int \<Rightarrow> string" where
  "finite_str neg s n =
     (if s = 0 then ''0''
      else
        (if neg then ''-'' else '''') @
        (let ds = digits s; k = int (length ds) in
         if k \<le> n \<and> n \<le> 21 then ds @ replicate (nat (n - k)) CHR ''0''
         else if 0 < n \<and> n \<le> 21 then take (nat n) ds @ ''.'' @ drop (nat n) ds
         else if - 6 < n \<and> n \<le> 0 then ''0.'' @ replicate (nat (- n)) CHR ''0'' @ ds
         else
           (let e = n - 1;
                es = (if e < 0 then ''-'' else ''+'') @ digits (nat \<bar>e\<bar>)
            in if k = 1 then ds @ ''e'' @ es
               else take 1 ds @ ''.'' @ drop 1 ds @ ''e'' @ es)))"

fun num_str :: "jsnum \<Rightarrow> string" where
  "num_str NaN = ''NaN''"
| "num_str PosInfinity = ''Infinity''"
| "num_str NegInfinity = ''-Infinity''"
| "num_str (Finite neg s n) = finite_str neg s n"

fun isFinite :: "jsnum \<Rightarrow> bool" where
  "isFinite (Finite neg s n) = True"
| "isFinite _ = False"

subsection \<open>Property access, truthiness, String()\<close>

definition get_prop :: "(string \<times> jsval) list \<Rightarrow> string \<Rightarrow> jsval" where
  "get_prop ps k = (case map_of ps k of Some v \<Rightarrow> v | None \<Rightarrow> JUndefined)"

text \<open>\<open>obj[k] = v\<close>: an existing property keeps its place, a new one is appended.\<close>

fun set_prop :: "(string \<times> jsval) list \<Rightarrow> string \<Rightarrow> jsval \<Rightarrow> (string \<times> jsval) list" where
  "set_prop [] k v = [(k, v)]"
| "set_prop ((k', v') # ps) k v =
     (if k' = k then (k, v) # ps else (k', v') # set_prop ps k v)"


text \<open>An array index key is the canonical decimal form of an index below the length.\<close>

definition array_index :: "string \<Rightarrow> nat \<Rightarrow> nat option" where
  "array_index k n = find (\<lambda>i. digits i = k) [0..<n]"

fun truthy :: "jsval \<Rightarrow> bool" where
  "truthy JUndefined = False"
| "truthy JNull = False"
| "truthy (JBool b) = b"
| "truthy (JNum NaN) = False"
| "truthy (JNum (Finite neg s n)) = (s \<noteq> 0)"
| "truthy (JNum _) = True"
| "truthy (JBigInt i) = (i \<noteq> 0)"
| "truthy (JStr s) = (s \<noteq> [])"
| "truthy _ = True"

fun typeof_object :: "jsval \<Rightarrow> bool" where
  "typeof_object JNull = True"
| "typeof_object (JDate d) = True"
| "typeof_object (JArr xs) = True"
| "typeof_object (JObj ps) = True"
| "typeof_object _ = False"

fun js_string :: "jsval \<Rightarrow> string" where
  "js_string JUndefined = ''undefined''"
| "js_string JNull = ''null''"
| "js_string (JBool b) = (if b then ''true'' else ''false'')"
| "js_string (JNum x) = num_str x"
| "js_string (JBigInt i) = show_int i"
| "js_string (JStr s) = s"
| "js_string (JDate InvalidDate) = ''Invalid Date''"
| "js_string (JDate (ValidDate isoText localText)) = localText"
| "js_string (JArr xs) =
     join '','' (map (\<lambda>x. if x = JNull \<or> x = JUndefined then [] else js_string x) xs)"
| "js_string (JObj ps) = ''[object Object]''"
| "js_string (JFun name len) = ''function '' @ name @ ''() { [native code] }''"

subsection \<open>JSON.stringify\<close>

definition hex_char :: "nat \<Rightarrow> char" where
  "hex_char d = ''0123456789abcdef'' ! (d mod 16)"

definition json_escape :: "char \<Rightarrow> string" where
  "json_escape c =
     (if c = dquote then [CHR 0x5C, dquote]
      else if c = CHR 0x5C then [CHR 0x5C, CHR 0x5C]
      else if c = CHR 0x08 then [CHR 0x5C, CHR ''b'']
      else if c = CHR 0x0C then [CHR 0x5C, CHR ''f'']
      else if c = CHR 0x0A then [CHR 0x5C, CHR ''n'']
      else if c = CHR 0x0D then [CHR 0x5C, CHR ''r'']
      else if c = CHR 0x09 then [CHR 0x5C, CHR ''t'']
      else if of_char c < (32 :: nat) then
        [CHR 0x5C, CHR ''u'', CHR ''0'', CHR ''0'',
         hex_char (of_char c div 16), hex_char (of_char c)]
      else [c])"

definition json_quote :: "string \<Rightarrow> string" where
  "json_quote s = [dquote] @ concat (map json_escape s) @ [dquote]"

text \<open>
  The serialisation of a value, or nothing where \<open>JSON.stringify\<close> gives \<open>undefined\<close>.
  A BigInt anywhere in the value raises a TypeError. An undefined array element is printed
  as \<open>null\<close>, a property with an undefined value is left out, a Date is printed through
  \<open>toJSON\<close>. A function has no JSON text.
\<close>

fun json_text :: "jsval \<Rightarrow> string option result"
  and json_items :: "jsval list \<Rightarrow> string list result"
  and json_props :: "(string \<times> jsval) list \<Rightarrow> string list result" where
  "json_text JUndefined = Inr None"
| "json_text JNull = Inr (Some ''null'')"
| "json_text (JBool b) = Inr (Some (if b then ''true'' else ''false''))"
| "json_text (JNum x) = Inr (Some (if isFinite x then num_str x else ''null''))"
| "json_text (JBigInt i) = Inl (TypeError ''Do not know how to serialize a BigInt'')"
| "json_text (JStr s) = Inr (Some (json_quote s))"
| "json_text (JDate InvalidDate) = Inr (Some ''null'')"
| "json_text (JDate (ValidDate isoText localText)) = Inr (Some (json_quote isoText))"
| "json_text (JArr xs) =
     (case json_items xs of
        Inl e \<Rightarrow> Inl e
      | Inr ss \<Rightarrow> Inr (Some (''['' @ join '','' ss @ '']'')))"
| "json_text (JObj ps) =
     (case json_props ps of
        Inl e \<Rightarrow> Inl e
      | Inr ss \<Rightarrow> Inr (Some (''{'' @ join '','' ss @ ''}'')))"
| "json_text (JFun name len) = Inr None"
| "json_items [] = Inr []"
| "json_items (x # xs) =
     (case json_text x of
        Inl e \<Rightarrow> Inl e
      | Inr r \<Rightarrow>
          (case json_items xs of
             Inl e \<Rightarrow> Inl e
           | Inr ss \<Rightarrow> Inr ((case r of None \<Rightarrow> ''null'' | Some s \<Rightarrow> s) # ss)))"
| "json_props [] = Inr []"
| "json_props (p # ps) =
     (case json_text (snd p) of
        Inl e \<Rightarrow> Inl e
      | Inr r \<Rightarrow>
          (case json_props ps of
             Inl e \<Rightarrow> Inl e
           | Inr ss \<Rightarrow>
               Inr ((case r of None \<Rightarrow> [] | Some s \<Rightarrow> [json_quote (fst p) @ '':'' @ s]) @ ss)))"

section \<open>Postgres seed-yaml: building SQL\<close>

definition replace_char :: "char \<Rightarrow> string \<Rightarrow> string \<Rightarrow> string" where
  "replace_char c r s = concat (map (\<lambda>x. if x = c then r else [x]) s)"

definition quoteIdentifier :: "string \<Rightarrow> string" where
  "quoteIdentifier v = [dquote] @ replace_char dquote [dquote, dquote] v @ [dquote]"

definition sql_quote :: "string \<Rightarrow> string" where
  "sql_quote s = [squote] @ replace_char squote [squote, squote] s @ [squote]"

text \<open>The escape hatch: an object with exactly one own key whose \<open>sql\<close> is a string.\<close>

fun sql_hatch :: "jsval \<Rightarrow> string option" where
  "sql_hatch (JObj [(k, JStr s)]) = (if k = ''sql'' then Some s else None)"
| "sql_hatch _ = None"

fun toSqlValue :: "jsval \<Rightarrow> string result" where
  "toSqlValue JNull = Inr ''NULL''"
| "toSqlValue JUndefined = Inr ''NULL''"
| "toSqlValue (JNum x) =
     (if \<not> isFinite x then Inl (Error ''Invalid number value in seed YAML.'')
      else Inr (num_str x))"
| "toSqlValue (JBigInt i) = Inr (show_int i)"
| "toSqlValue (JBool b) = Inr (if b then ''TRUE'' else ''FALSE'')"
| "toSqlValue (JDate InvalidDate) = Inl (RangeError ''Invalid time value'')"
| "toSqlValue (JDate (ValidDate isoText localText)) = Inr (sql_quote isoText)"
| "toSqlValue (JStr s) = Inr (sql_quote s)"
| "toSqlValue (JFun name len) = Inr (sql_quote (js_string (JFun name len)))"
| "toSqlValue v =
     (case sql_hatch v of
        Some raw \<Rightarrow> Inr raw
      | None \<Rightarrow>
          (case json_text v of
             Inl e \<Rightarrow> Inl e
           | Inr None \<Rightarrow> Inl (TypeError ''Cannot read properties of undefined'')
           | Inr (Some json) \<Rightarrow> Inr (sql_quote json @ ''::jsonb'')))"

definition buildInsertSql ::
  "string \<Rightarrow> (string \<times> jsval) list \<Rightarrow> string list option \<Rightarrow> string result" where
  "buildInsertSql table row upsertBy =
     (let columns = map fst row in
      if length columns = 0 then
        Inl (Error (''Seed row for table '' @ [dquote] @ table @ [dquote] @ '' has no columns.''))
      else
        let columnSql = join '', '' (map quoteIdentifier columns) in
        case collect (map (\<lambda>col. toSqlValue (get_prop row col)) columns) of
          Inl e \<Rightarrow> Inl e
        | Inr values \<Rightarrow>
            let valuesSql = join '', '' values;
                sql = ''INSERT INTO '' @ quoteIdentifier table @ '' ('' @ columnSql @
                      '') VALUES ('' @ valuesSql @ '')''
            in
            (case upsertBy of
               None \<Rightarrow> Inr (sql @ '';'')
             | Some ub \<Rightarrow>
                 if length ub = 0 then Inr (sql @ '';'')
                 else
                   let conflictCols = join '', '' (map quoteIdentifier ub);
                       updateCols = filter (\<lambda>col. col \<notin> set ub) columns
                   in
                   if length updateCols = 0 then
                     Inr (sql @ '' ON CONFLICT ('' @ conflictCols @ '') DO NOTHING;'')
                   else
                     let updateSql =
                           join '', ''
                             (map (\<lambda>col. quoteIdentifier col @ '' = EXCLUDED.'' @ quoteIdentifier col)
                                updateCols)
                     in Inr (sql @ '' ON CONFLICT ('' @ conflictCols @ '') DO UPDATE SET '' @
                             updateSql @ '';'')))"

section \<open>Postgres seed-yaml: variables\<close>

text \<open>
  The character classes of the regular expressions: \<open>\s\<close> (white space among the code
  units below 256) and \<open>[a-zA-Z0-9_.-]\<close>.
\<close>

definition is_space :: "char \<Rightarrow> bool" where
  "is_space c =
     (c \<in> set [CHR 0x09, CHR 0x0A, CHR 0x0B, CHR 0x0C, CHR 0x0D, CHR 0x20, CHR 0xA0])"

definition is_key_char :: "char \<Rightarrow> bool" where
  "is_key_char c =
     (let n = (of_char c :: nat) in
      (97 \<le> n \<and> n \<le> 122) \<or> (65 \<le> n \<and> n \<le> 90) \<or> (48 \<le> n \<and> n \<le> 57) \<or>
      c = CHR ''_'' \<or> c = CHR ''.'' \<or> c = CHR ''-'')"

fun strip_prefix :: "string \<Rightarrow> string \<Rightarrow> string option" where
  "strip_prefix [] s = Some s"
| "strip_prefix (p # ps) [] = None"
| "strip_prefix (p # ps) (c # cs) = (if p = c then strip_prefix ps cs else None)"

text \<open>\<open>String.prototype.split\<close> with a one-character separator.\<close>

fun split_on :: "char \<Rightarrow> string \<Rightarrow> string list" where
  "split_on sep [] = [[]]"
| "split_on sep (c # cs) =
     (if c = sep then [] # split_on sep cs
      else (case split_on sep cs of
              [] \<Rightarrow> [[c]]
            | p # ps \<Rightarrow> (c # p) # ps))"

text \<open>The number of a length or an index, in the shortest digit string.\<close>

fun strip_zeros :: "nat \<Rightarrow> nat" where
  "strip_zeros n = (if n = 0 then 0 else if n mod 10 = 0 then strip_zeros (n div 10) else n)"

declare strip_zeros.simps [simp del]

definition num_of_nat :: "nat \<Rightarrow> jsnum" where
  "num_of_nat n = Finite False (strip_zeros n) (int (length (digits n)))"

subsection \<open>Reading a property\<close>

text \<open>
  A property read looks at the own properties of the value first and then follows the
  prototype chain. The string-keyed members of the built-in prototypes are functions, with
  two exceptions: \<open>length\<close>, which is an own property of every array, string and function
  as well, and the accessor \<open>__proto__\<close>, which gives the prototype object itself. The
  tables list each member with the name and the \<open>length\<close> of its function.
\<close>

definition builtin :: "string \<Rightarrow> nat \<Rightarrow> string \<times> jsval" where
  "builtin name len = (name, JFun name len)"

definition object_prototype :: "(string \<times> jsval) list" where
  "object_prototype =
     [(''constructor'', JFun ''Object'' 1),
      builtin ''__defineGetter__'' 2, builtin ''__defineSetter__'' 2,
      builtin ''hasOwnProperty'' 1, builtin ''__lookupGetter__'' 1,
      builtin ''__lookupSetter__'' 1, builtin ''isPrototypeOf'' 1,
      builtin ''propertyIsEnumerable'' 1, builtin ''toString'' 0, builtin ''valueOf'' 0,
      builtin ''toLocaleString'' 0]"

definition array_prototype :: "(string \<times> jsval) list" where
  "array_prototype =
     [(''constructor'', JFun ''Array'' 1),
      builtin ''at'' 1, builtin ''concat'' 1, builtin ''copyWithin'' 2, builtin ''fill'' 1,
      builtin ''find'' 1, builtin ''findIndex'' 1, builtin ''findLast'' 1,
      builtin ''findLastIndex'' 1, builtin ''lastIndexOf'' 1, builtin ''pop'' 0,
      builtin ''push'' 1, builtin ''reverse'' 0, builtin ''shift'' 0, builtin ''unshift'' 1,
      builtin ''slice'' 2, builtin ''sort'' 1, builtin ''splice'' 2, builtin ''includes'' 1,
      builtin ''indexOf'' 1, builtin ''join'' 1, builtin ''keys'' 0, builtin ''entries'' 0,
      builtin ''values'' 0, builtin ''forEach'' 1, builtin ''filter'' 1, builtin ''flat'' 0,
      builtin ''flatMap'' 1, builtin ''map'' 1, builtin ''every'' 1, builtin ''some'' 1,
      builtin ''reduce'' 1, builtin ''reduceRight'' 1, builtin ''toLocaleString'' 0,
      builtin ''toString'' 0, builtin ''toReversed'' 0, builtin ''toSorted'' 1,
      builtin ''toSpliced'' 2, builtin ''with'' 2]"

definition string_prototype :: "(string \<times> jsval) list" where
  "string_prototype =
     [(''constructor'', JFun ''String'' 1),
      builtin ''anchor'' 1, builtin ''at'' 1, builtin ''big'' 0, builtin ''blink'' 0,
      builtin ''bold'' 0, builtin ''charAt'' 1, builtin ''charCodeAt'' 1,
      builtin ''codePointAt'' 1, builtin ''concat'' 1, builtin ''endsWith'' 1,
      builtin ''fontcolor'' 1, builtin ''fontsize'' 1, builtin ''fixed'' 0,
      builtin ''includes'' 1, builtin ''indexOf'' 1, builtin ''isWellFormed'' 0,
      builtin ''italics'' 0, builtin ''lastIndexOf'' 1, builtin ''link'' 1,
      builtin ''localeCompare'' 1, builtin ''match'' 1, builtin ''matchAll'' 1,
      builtin ''normalize'' 0, builtin ''padEnd'' 1, builtin ''padStart'' 1,
      builtin ''repeat'' 1, builtin ''replace'' 2, builtin ''replaceAll'' 2,
      builtin ''search'' 1, builtin ''slice'' 2, builtin ''small'' 0, builtin ''split'' 2,
      builtin ''strike'' 0, builtin ''sub'' 0, builtin ''substr'' 2, builtin ''substring'' 2,
      builtin ''sup'' 0, builtin ''startsWith'' 1, builtin ''toString'' 0,
      builtin ''toWellFormed'' 0, builtin ''trim'' 0, builtin ''trimStart'' 0,
      (''trimLeft'', JFun ''trimStart'' 0), builtin ''trimEnd'' 0,
      (''trimRight'', JFun ''trimEnd'' 0), builtin ''toLocaleLowerCase'' 0,
      builtin ''toLocaleUpperCase'' 0, builtin ''toLowerCase'' 0, builtin ''toUpperCase'' 0,
      builtin ''valueOf'' 0]"

definition number_prototype :: "(string \<times> jsval) list" where
  "number_prototype =
     [(''constructor'', JFun ''Number'' 1),
      builtin ''toExponential'' 1, builtin ''toFixed'' 1, builtin ''toPrecision'' 1,
      builtin ''toString'' 1, builtin ''valueOf'' 0, builtin ''toLocaleString'' 0]"

definition boolean_prototype :: "(string \<times> jsval) list" where
  "boolean_prototype =
     [(''constructor'', JFun ''Boolean'' 1), builtin ''toString'' 0, builtin ''valueOf'' 0]"

definition bigint_prototype :: "(string \<times> jsval) list" where
  "bigint_prototype =
     [(''constructor'', JFun ''BigInt'' 1),
      builtin ''toLocaleString'' 0, builtin ''toString'' 0, builtin ''valueOf'' 0]"

definition date_prototype :: "(string \<times> jsval) list" where
  "date_prototype =
     [(''constructor'', JFun ''Date'' 7),
      builtin ''toString'' 0, builtin ''toDateString'' 0, builtin ''toTimeString'' 0,
      builtin ''toISOString'' 0, builtin ''toUTCString'' 0,
      (''toGMTString'', JFun ''toUTCString'' 0),
      builtin ''getDate'' 0, builtin ''setDate'' 1, builtin ''getDay'' 0,
      builtin ''getFullYear'' 0, builtin ''setFullYear'' 3, builtin ''getHours'' 0,
      builtin ''setHours'' 4, builtin ''getMilliseconds'' 0, builtin ''setMilliseconds'' 1,
      builtin ''getMinutes'' 0, builtin ''setMinutes'' 3, builtin ''getMonth'' 0,
      builtin ''setMonth'' 2, builtin ''getSeconds'' 0, builtin ''setSeconds'' 2,
      builtin ''getTime'' 0, builtin ''setTime'' 1, builtin ''getTimezoneOffset'' 0,
      builtin ''getUTCDate'' 0, builtin ''setUTCDate'' 1, builtin ''getUTCDay'' 0,
      builtin ''getUTCFullYear'' 0, builtin ''setUTCFullYear'' 3, builtin ''getUTCHours'' 0,
      builtin ''setUTCHours'' 4, builtin ''getUTCMilliseconds'' 0,
      builtin ''setUTCMilliseconds'' 1, builtin ''getUTCMinutes'' 0,
      builtin ''setUTCMinutes'' 3, builtin ''getUTCMonth'' 0, builtin ''setUTCMonth'' 2,
      builtin ''getUTCSeconds'' 0, builtin ''setUTCSeconds'' 2, builtin ''valueOf'' 0,
      builtin ''getYear'' 0, builtin ''setYear'' 1, builtin ''toJSON'' 1,
      builtin ''toLocaleString'' 0, builtin ''toLocaleDateString'' 0,
      builtin ''toLocaleTimeString'' 0]"

definition function_prototype :: "(string \<times> jsval) list" where
  "function_prototype =
     [(''constructor'', JFun ''Function'' 1),
      builtin ''apply'' 2, builtin ''bind'' 1, builtin ''call'' 1, builtin ''toString'' 0]"

text \<open>The members that a value inherits: those of its own prototype, and behind them
  those of \<open>Object.prototype\<close>.\<close>

fun prototype_of :: "jsval \<Rightarrow> (string \<times> jsval) list" where
  "prototype_of (JBool b) = boolean_prototype @ object_prototype"
| "prototype_of (JNum x) = number_prototype @ object_prototype"
| "prototype_of (JBigInt i) = bigint_prototype @ object_prototype"
| "prototype_of (JStr s) = string_prototype @ object_prototype"
| "prototype_of (JDate d) = date_prototype @ object_prototype"
| "prototype_of (JArr xs) = array_prototype @ object_prototype"
| "prototype_of (JObj ps) = object_prototype"
| "prototype_of (JFun name len) = function_prototype @ object_prototype"
| "prototype_of v = []"

text \<open>
  What \<open>__proto__\<close> gives. The prototype object is represented by the empty value of the
  same kind, which has the same members, the same \<open>String()\<close> and the same JSON text: the
  empty object for an object, the empty array for an array, the empty string for a string,
  zero for a number, \<open>false\<close> for a boolean, the function without a name for a function.
  (The prototype of such a representative is the representative again, where the language
  has \<open>Object.prototype\<close> or \<open>null\<close>; \<open>Date.prototype\<close> and \<open>BigInt.prototype\<close>, whose
  \<open>String()\<close> raises, are represented by the empty object.)
\<close>

fun proto_object :: "jsval \<Rightarrow> jsval" where
  "proto_object (JBool b) = JBool False"
| "proto_object (JNum x) = JNum (Finite False 0 1)"
| "proto_object (JStr s) = JStr []"
| "proto_object (JArr xs) = JArr []"
| "proto_object (JFun name len) = JFun [] 0"
| "proto_object JUndefined = JUndefined"
| "proto_object JNull = JUndefined"
| "proto_object v = JObj []"

text \<open>The own properties that a read can find: the properties of an object, the indices
  and the \<open>length\<close> of an array and of a string, the \<open>name\<close> and the \<open>length\<close> of a
  function.\<close>

fun own_property :: "jsval \<Rightarrow> string \<Rightarrow> jsval option" where
  "own_property (JObj ps) k = map_of ps k"
| "own_property (JArr xs) k =
     (if k = ''length'' then Some (JNum (num_of_nat (length xs)))
      else map_option (\<lambda>i. xs ! i) (array_index k (length xs)))"
| "own_property (JStr s) k =
     (if k = ''length'' then Some (JNum (num_of_nat (length s)))
      else map_option (\<lambda>i. JStr [s ! i]) (array_index k (length s)))"
| "own_property (JFun name len) k =
     (if k = ''length'' then Some (JNum (num_of_nat len))
      else if k = ''name'' then Some (JStr name)
      else None)"
| "own_property v k = None"

text \<open>Reading the property \<open>k\<close> of a value that is neither null nor undefined. Of a
  function the model has \<open>name\<close>, \<open>length\<close> and the inherited members; \<open>resolveVarByPath\<close>
  never reads from a function, and a response template does only on a path that goes
  through a built-in function, where the static members of the constructors and the
  accessors \<open>caller\<close> and \<open>arguments\<close> are not modelled.\<close>

definition js_get :: "jsval \<Rightarrow> string \<Rightarrow> jsval" where
  "js_get v k =
     (case own_property v k of
        Some x \<Rightarrow> x
      | None \<Rightarrow>
          if k = ''__proto__'' then proto_object v
          else (case map_of (prototype_of v) k of Some m \<Rightarrow> m | None \<Rightarrow> JUndefined))"

definition resolveVarByPath :: "(string \<times> jsval) list \<Rightarrow> string \<Rightarrow> jsval" where
  "resolveVarByPath variables keyPath =
     fold (\<lambda>key acc. if \<not> truthy acc \<or> \<not> typeof_object acc then JUndefined else js_get acc key)
       (split_on CHR ''.'' keyPath) (JObj variables)"

text \<open>
  A match of \<open>{{\s*vars\.([a-zA-Z0-9_.-]+)\s*}}\<close> at the start of a string: the captured
  token and the text after the match. No character of the token class is white space or a
  brace, so the greedy match is the only one.
\<close>

definition match_handlebars :: "string \<Rightarrow> (string \<times> string) option" where
  "match_handlebars s =
     (case strip_prefix ''{{'' s of
        None \<Rightarrow> None
      | Some r \<Rightarrow>
          (case strip_prefix ''vars.'' (dropWhile is_space r) of
             None \<Rightarrow> None
           | Some r2 \<Rightarrow>
               if takeWhile is_key_char r2 = [] then None
               else
                 (case strip_prefix ''}}'' (dropWhile is_space (dropWhile is_key_char r2)) of
                    None \<Rightarrow> None
                  | Some rest \<Rightarrow> Some (takeWhile is_key_char r2, rest))))"

text \<open>A match of \<open>\$\{([a-zA-Z0-9_.-]+)\}\<close> at the start of a string.\<close>

definition match_legacy :: "string \<Rightarrow> (string \<times> string) option" where
  "match_legacy s =
     (case strip_prefix ''${'' s of
        None \<Rightarrow> None
      | Some r \<Rightarrow>
          if takeWhile is_key_char r = [] then None
          else
            (case strip_prefix ''}'' (dropWhile is_key_char r) of
               None \<Rightarrow> None
             | Some rest \<Rightarrow> Some (takeWhile is_key_char r, rest)))"

lemma strip_prefix_length: "strip_prefix p s = Some r \<Longrightarrow> length s = length p + length r"
  by (induction p s rule: strip_prefix.induct) (auto split: if_splits)

lemma match_handlebars_shorter:
  assumes "match_handlebars s = Some (tok, rest)"
  shows "length rest < length s"
proof -
  from assms obtain r r2 where
    a: "strip_prefix ''{{'' s = Some r" and
    b: "strip_prefix ''vars.'' (dropWhile is_space r) = Some r2" and
    c: "strip_prefix ''}}'' (dropWhile is_space (dropWhile is_key_char r2)) = Some rest"
    unfolding match_handlebars_def by (auto split: option.splits if_splits)
  have "length s = 2 + length r"
    using strip_prefix_length[OF a] by simp
  moreover have "length (dropWhile is_space r) = 5 + length r2"
    using strip_prefix_length[OF b] by simp
  moreover have "length (dropWhile is_space (dropWhile is_key_char r2)) = 2 + length rest"
    using strip_prefix_length[OF c] by simp
  moreover have "length (dropWhile is_space r) \<le> length r"
    by (rule length_dropWhile_le)
  moreover have "length (dropWhile is_space (dropWhile is_key_char r2)) \<le> length r2"
    by (meson length_dropWhile_le order_trans)
  ultimately show ?thesis by linarith
qed

lemma match_legacy_shorter:
  assumes "match_legacy s = Some (tok, rest)"
  shows "length rest < length s"
proof -
  from assms obtain r where
    a: "strip_prefix ''${'' s = Some r" and
    c: "strip_prefix ''}'' (dropWhile is_key_char r) = Some rest"
    unfolding match_legacy_def by (auto split: option.splits if_splits)
  have "length s = 2 + length r"
    using strip_prefix_length[OF a] by simp
  moreover have "length (dropWhile is_key_char r) = 1 + length rest"
    using strip_prefix_length[OF c] by simp
  moreover have "length (dropWhile is_key_char r) \<le> length r"
    by (rule length_dropWhile_le)
  ultimately show ?thesis by linarith
qed

text \<open>
  \<open>String.prototype.replace\<close> with a global pattern and a replacement function: the
  text is scanned from the left, each match is replaced by what the function returns, and
  the scan goes on after the match.
\<close>

function replace_handlebars :: "(string \<times> jsval) list \<Rightarrow> string \<Rightarrow> string" where
  "replace_handlebars variables [] = []"
| "replace_handlebars variables (c # cs) =
     (case match_handlebars (c # cs) of
        Some (token, rest) \<Rightarrow>
          (let resolved = resolveVarByPath variables token in
           (if resolved \<noteq> JUndefined then js_string resolved else []) @
           replace_handlebars variables rest)
      | None \<Rightarrow> c # replace_handlebars variables cs)"
  by pat_completeness auto
termination
  by (relation "measure (\<lambda>(v, s). length s)") (auto dest: match_handlebars_shorter)

function replace_legacy :: "(string \<times> jsval) list \<Rightarrow> string \<Rightarrow> string" where
  "replace_legacy variables [] = []"
| "replace_legacy variables (c # cs) =
     (case match_legacy (c # cs) of
        Some (token, rest) \<Rightarrow>
          (let resolved = resolveVarByPath variables token in
           (if resolved \<noteq> JUndefined then js_string resolved else []) @
           replace_legacy variables rest)
      | None \<Rightarrow> c # replace_legacy variables cs)"
  by pat_completeness auto
termination
  by (relation "measure (\<lambda>(v, s). length s)") (auto dest: match_legacy_shorter)

text \<open>A Date is an object without own enumerable properties: the copy is an empty object.\<close>

fun applySeedVariables :: "jsval \<Rightarrow> (string \<times> jsval) list \<Rightarrow> jsval" where
  "applySeedVariables (JStr s) variables =
     (case match_handlebars s of
        Some (token, []) \<Rightarrow>
          (let resolved = resolveVarByPath variables token in
           if resolved \<noteq> JUndefined then resolved else JStr [])
      | _ \<Rightarrow>
          (case match_legacy s of
             Some (token, []) \<Rightarrow>
               (let resolved = resolveVarByPath variables token in
                if resolved \<noteq> JUndefined then resolved else JStr [])
           | _ \<Rightarrow> JStr (replace_legacy variables (replace_handlebars variables s))))"
| "applySeedVariables (JArr xs) variables =
     JArr (map (\<lambda>item. applySeedVariables item variables) xs)"
| "applySeedVariables (JObj ps) variables =
     JObj (map (\<lambda>p. (fst p, applySeedVariables (snd p) variables)) ps)"
| "applySeedVariables (JDate d) variables = JObj []"
| "applySeedVariables v variables = v"

section \<open>Postgres seed-yaml: the interpreter\<close>

datatype pg_mode = Compose | Direct

record PostgresRuntime =
  rt_mode :: pg_mode
  rt_service :: string
  rt_user :: string
  rt_password :: "string option"
  rt_host :: "string option"
  rt_port :: "jsnum option"
  rt_adminDb :: string
  rt_composeDir :: string
  rt_ssl :: "bool option"

text \<open>
  The two ways the interpreter reaches the database: a statement piped to \<open>psql\<close>, and a
  query whose output is captured. What the database answers depends on everything that was
  sent before, so the world is a function of the history and the request: the captured
  output, or the error of a failed command.
\<close>

datatype event =
    Psql PostgresRuntime string string
  | PsqlCapture PostgresRuntime string string

type_synonym world = "event list \<Rightarrow> event \<Rightarrow> string result"

definition missing_host :: "PostgresRuntime \<Rightarrow> bool" where
  "missing_host runtime = (rt_host runtime = None \<or> rt_host runtime = Some [])"

definition runPsqlWithRuntime ::
  "world \<Rightarrow> PostgresRuntime \<Rightarrow> string \<Rightarrow> string \<Rightarrow> event list \<Rightarrow> event list \<times> unit result" where
  "runPsqlWithRuntime W runtime db sql h =
     (if rt_mode runtime = Direct \<and> missing_host runtime then
        (h, Inl (Error ''Missing Postgres host for direct mode.''))
      else
        (h @ [Psql runtime db sql],
         case W h (Psql runtime db sql) of Inl e \<Rightarrow> Inl e | Inr out \<Rightarrow> Inr ()))"

definition runPsqlWithRuntimeCapture ::
  "world \<Rightarrow> PostgresRuntime \<Rightarrow> string \<Rightarrow> string \<Rightarrow> event list \<Rightarrow> event list \<times> string result" where
  "runPsqlWithRuntimeCapture W runtime db sql h =
     (if rt_mode runtime = Direct \<and> missing_host runtime then
        (h, Inl (Error ''Missing Postgres host for direct mode.''))
      else (h @ [PsqlCapture runtime db sql], W h (PsqlCapture runtime db sql)))"

subsection \<open>References to other rows\<close>

text \<open>\<open>Object.entries\<close> of a value that is neither null nor undefined.\<close>

fun object_entries :: "jsval \<Rightarrow> (string \<times> jsval) list" where
  "object_entries (JObj ps) = ps"
| "object_entries (JArr xs) = map (\<lambda>i. (digits i, xs ! i)) [0..<length xs]"
| "object_entries (JStr s) = map (\<lambda>i. (digits i, JStr [s ! i])) [0..<length s]"
| "object_entries v = []"

definition isSeedRef :: "jsval \<Rightarrow> bool" where
  "isSeedRef v =
     (if \<not> truthy v \<or> \<not> typeof_object v then False
      else truthy (js_get v ''ref'') \<and> truthy (js_get (js_get v ''ref'') ''table'') \<and>
           truthy (js_get (js_get v ''ref'') ''where''))"

definition js_trim :: "string \<Rightarrow> string" where
  "js_trim s = rev (dropWhile is_space (rev (dropWhile is_space s)))"

definition is_digit :: "char \<Rightarrow> bool" where
  "is_digit c = (48 \<le> (of_char c :: nat) \<and> (of_char c :: nat) \<le> 57)"

text \<open>The test \<open>/^-?\d+$/\<close>.\<close>

definition is_integer_text :: "string \<Rightarrow> bool" where
  "is_integer_text s =
     (case s of
        [] \<Rightarrow> False
      | c # cs \<Rightarrow> if c = CHR ''-'' then cs \<noteq> [] \<and> list_all is_digit cs
                 else list_all is_digit (c # cs))"

definition nat_of_digits :: "string \<Rightarrow> nat" where
  "nat_of_digits s = foldl (\<lambda>acc c. 10 * acc + (of_char c - 48)) 0 s"

text \<open>\<open>BigInt\<close> of a text that passed the test.\<close>

definition bigint_of_text :: "string \<Rightarrow> int" where
  "bigint_of_text s =
     (case s of
        [] \<Rightarrow> 0
      | c # cs \<Rightarrow> if c = CHR ''-'' then - int (nat_of_digits cs) else int (nat_of_digits (c # cs)))"

text \<open>
  A value used where the code calls a string method on it: \<open>quoteIdentifier\<close> of anything
  but a string raises a TypeError, at the read of \<open>replace\<close> on \<open>null\<close> and \<open>undefined\<close>
  and at the call on any other value.
\<close>

definition quoteIdentifierDyn :: "jsval \<Rightarrow> string result" where
  "quoteIdentifierDyn v =
     (case v of
        JStr s \<Rightarrow> Inr (quoteIdentifier s)
      | JUndefined \<Rightarrow>
          Inl (TypeError (''Cannot read properties of undefined (reading '' @ [squote] @
                          ''replace'' @ [squote] @ '')''))
      | JNull \<Rightarrow>
          Inl (TypeError (''Cannot read properties of null (reading '' @ [squote] @
                          ''replace'' @ [squote] @ '')''))
      | _ \<Rightarrow> Inl (TypeError ''value.replace is not a function''))"

definition resolveSeedRef ::
  "world \<Rightarrow> PostgresRuntime \<Rightarrow> string \<Rightarrow> jsval \<Rightarrow> event list \<Rightarrow> event list \<times> jsval result" where
  "resolveSeedRef W runtime db ref h =
     (let column = (case js_get ref ''column'' of
                      JUndefined \<Rightarrow> JStr ''id''
                    | JNull \<Rightarrow> JStr ''id''
                    | c \<Rightarrow> c)
      in
      case collect (map (\<lambda>(field, v).
                      case toSqlValue v of
                        Inl e \<Rightarrow> Inl e
                      | Inr s \<Rightarrow> Inr (quoteIdentifier field @ '' = '' @ s))
                    (object_entries (js_get ref ''where''))) of
        Inl e \<Rightarrow> (h, Inl e)
      | Inr whereClauses \<Rightarrow>
          let whereSql = (if length whereClauses \<noteq> 0
                          then '' WHERE '' @ join '' AND '' whereClauses else [])
          in
          (case quoteIdentifierDyn column of
             Inl e \<Rightarrow> (h, Inl e)
           | Inr columnSql \<Rightarrow>
               (case quoteIdentifierDyn (js_get ref ''table'') of
                  Inl e \<Rightarrow> (h, Inl e)
                | Inr tableSql \<Rightarrow>
                    let sql = ''SELECT '' @ columnSql @ '' FROM '' @ tableSql @ whereSql @
                              '' LIMIT 1;''
                    in
                    (case runPsqlWithRuntimeCapture W runtime db sql h of
                       (h1, Inl e) \<Rightarrow> (h1, Inl e)
                     | (h1, Inr output) \<Rightarrow>
                         let v = js_trim output in
                         if v = [] then
                           (h1, Inl (Error (''Seed ref not found: '' @
                              js_string (js_get ref ''table'') @ ''('' @
                              (if join '', '' whereClauses = [] then ''no filter''
                               else join '', '' whereClauses) @ '')'')))
                         else if is_integer_text v then (h1, Inr (JBigInt (bigint_of_text v)))
                         else (h1, Inr (JStr v))))))"

text \<open>\<open>Object.entries\<close> of any value: it raises on \<open>null\<close> and \<open>undefined\<close>.\<close>

definition nullish :: "jsval \<Rightarrow> bool" where
  "nullish v = (v = JUndefined \<or> v = JNull)"

definition entries_of :: "jsval \<Rightarrow> (string \<times> jsval) list result" where
  "entries_of v =
     (if nullish v then Inl (TypeError ''Cannot convert undefined or null to object'')
      else Inr (object_entries v))"

text \<open>The loop of \<open>resolveSeedRow\<close> over the entries of the row.\<close>

fun resolveSeedEntries ::
  "world \<Rightarrow> PostgresRuntime \<Rightarrow> string \<Rightarrow> (string \<times> jsval) list \<Rightarrow> event list \<Rightarrow>
   event list \<times> (string \<times> jsval) list result" where
  "resolveSeedEntries W runtime db [] h = (h, Inr [])"
| "resolveSeedEntries W runtime db ((key, v) # rest) h =
     (if isSeedRef v then
        (case resolveSeedRef W runtime db (js_get v ''ref'') h of
           (h1, Inl e) \<Rightarrow> (h1, Inl e)
         | (h1, Inr r) \<Rightarrow>
             (case resolveSeedEntries W runtime db rest h1 of
                (h2, Inl e) \<Rightarrow> (h2, Inl e)
              | (h2, Inr resolved) \<Rightarrow> (h2, Inr ((key, r) # resolved))))
      else
        (case resolveSeedEntries W runtime db rest h of
           (h2, Inl e) \<Rightarrow> (h2, Inl e)
         | (h2, Inr resolved) \<Rightarrow> (h2, Inr ((key, v) # resolved))))"

definition resolveSeedRow ::
  "world \<Rightarrow> PostgresRuntime \<Rightarrow> string \<Rightarrow> jsval \<Rightarrow> event list \<Rightarrow>
   event list \<times> (string \<times> jsval) list result" where
  "resolveSeedRow W runtime db row h =
     (case entries_of row of
        Inl e \<Rightarrow> (h, Inl e)
      | Inr entries \<Rightarrow> resolveSeedEntries W runtime db entries h)"

subsection \<open>Statements for rows and operations\<close>

text \<open>
  The tables and the operations are cast to their declared types without a check, so the
  builders can be given a table name and an \<open>upsertBy\<close> of any type. A table name is
  printed in messages with \<open>String()\<close> and quoted with \<open>quoteIdentifier\<close>, which raises
  on anything but a string. \<open>upsertBy\<close> is used when it is truthy and its \<open>length\<close> is not
  the number zero: then \<open>map\<close> and \<open>includes\<close> are called on it, which only an array has.
  (A call of a built-in function that a document holds under the name of such a method is
  not modelled: the call is taken to raise like the call of any other value.)
\<close>

fun is_zero :: "jsval \<Rightarrow> bool" where
  "is_zero (JNum (Finite neg s n)) = (s = 0)"
| "is_zero v = False"

definition buildInsertSqlDyn :: "jsval \<Rightarrow> (string \<times> jsval) list \<Rightarrow> jsval \<Rightarrow> string result" where
  "buildInsertSqlDyn table row upsertBy =
     (let columns = map fst row in
      if length columns = 0 then
        Inl (Error (''Seed row for table '' @ [dquote] @ js_string table @ [dquote] @
                    '' has no columns.''))
      else
        let columnSql = join '', '' (map quoteIdentifier columns) in
        case collect (map (\<lambda>col. toSqlValue (get_prop row col)) columns) of
          Inl e \<Rightarrow> Inl e
        | Inr vals \<Rightarrow>
            (case quoteIdentifierDyn table of
               Inl e \<Rightarrow> Inl e
             | Inr tableSql \<Rightarrow>
                 let valuesSql = join '', '' vals;
                     sql = ''INSERT INTO '' @ tableSql @ '' ('' @ columnSql @
                           '') VALUES ('' @ valuesSql @ '')''
                 in
                 if \<not> truthy upsertBy \<or> is_zero (js_get upsertBy ''length'') then Inr (sql @ '';'')
                 else
                   (case upsertBy of
                      JArr ub \<Rightarrow>
                        (case collect (map quoteIdentifierDyn ub) of
                           Inl e \<Rightarrow> Inl e
                         | Inr quoted \<Rightarrow>
                             let conflictCols = join '', '' quoted;
                                 updateCols = filter (\<lambda>col. JStr col \<notin> set ub) columns
                             in
                             if length updateCols = 0 then
                               Inr (sql @ '' ON CONFLICT ('' @ conflictCols @ '') DO NOTHING;'')
                             else
                               let updateSql =
                                     join '', ''
                                       (map (\<lambda>col. quoteIdentifier col @ '' = EXCLUDED.'' @
                                                   quoteIdentifier col)
                                          updateCols)
                               in Inr (sql @ '' ON CONFLICT ('' @ conflictCols @
                                       '') DO UPDATE SET '' @ updateSql @ '';''))
                    | _ \<Rightarrow> Inl (TypeError ''upsertBy.map is not a function''))))"

text \<open>\<open>buildWhereSql\<close> only prints the table name, in its message.\<close>

definition buildWhereSql :: "string \<Rightarrow> (string \<times> jsval) list \<Rightarrow> string result" where
  "buildWhereSql table whr =
     (if length whr = 0 then
        Inl (Error (''Operation on table '' @ [dquote] @ table @ [dquote] @
                    '' requires a non-empty '' @ [dquote] @ ''where'' @ [dquote] @ '' clause.''))
      else
        case collect (map (\<lambda>(field, v).
                        if v = JNull then Inr (quoteIdentifier field @ '' IS NULL'')
                        else (case toSqlValue v of
                                Inl e \<Rightarrow> Inl e
                              | Inr s \<Rightarrow> Inr (quoteIdentifier field @ '' = '' @ s)))
                      whr) of
          Inl e \<Rightarrow> Inl e
        | Inr predicates \<Rightarrow> Inr (join '' AND '' predicates))"

definition buildUpdateSql ::
  "jsval \<Rightarrow> (string \<times> jsval) list \<Rightarrow> (string \<times> jsval) list \<Rightarrow> string result" where
  "buildUpdateSql table st whr =
     (if length st = 0 then
        Inl (Error (''Update operation for '' @ [dquote] @ js_string table @ [dquote] @
                    '' requires a non-empty '' @ [dquote] @ ''set'' @ [dquote] @ '' object.''))
      else
        case collect (map (\<lambda>(col, v).
                        case toSqlValue v of
                          Inl e \<Rightarrow> Inl e
                        | Inr s \<Rightarrow> Inr (quoteIdentifier col @ '' = '' @ s))
                      st) of
          Inl e \<Rightarrow> Inl e
        | Inr sets \<Rightarrow>
            (case buildWhereSql (js_string table) whr of
               Inl e \<Rightarrow> Inl e
             | Inr whereSql \<Rightarrow>
                 (case quoteIdentifierDyn table of
                    Inl e \<Rightarrow> Inl e
                  | Inr tableSql \<Rightarrow>
                      Inr (''UPDATE '' @ tableSql @ '' SET '' @ join '', '' sets @
                           '' WHERE '' @ whereSql @ '';''))))"

definition buildDeleteSql :: "jsval \<Rightarrow> (string \<times> jsval) list \<Rightarrow> string result" where
  "buildDeleteSql table whr =
     (case buildWhereSql (js_string table) whr of
        Inl e \<Rightarrow> Inl e
      | Inr whereSql \<Rightarrow>
          (case quoteIdentifierDyn table of
             Inl e \<Rightarrow> Inl e
           | Inr tableSql \<Rightarrow> Inr (''DELETE FROM '' @ tableSql @ '' WHERE '' @ whereSql @ '';'')))"

subsection \<open>Running tables and operations\<close>

text \<open>
  The entries of \<open>tables\<close> and of \<open>operations\<close> are read as they are, field by field and
  only where the code reads them: \<open>v?.k\<close> gives \<open>undefined\<close> on \<open>null\<close> and \<open>undefined\<close>,
  \<open>v.k\<close> raises there, and \<open>v ?? d\<close> replaces \<open>null\<close> and \<open>undefined\<close> by \<open>d\<close>.
\<close>

definition opt_get :: "jsval \<Rightarrow> string \<Rightarrow> jsval" where
  "opt_get v k = (if nullish v then JUndefined else js_get v k)"

definition or_else :: "jsval \<Rightarrow> jsval \<Rightarrow> jsval" where
  "or_else v d = (if nullish v then d else v)"

definition read_prop :: "jsval \<Rightarrow> string \<Rightarrow> jsval result" where
  "read_prop v k =
     (if nullish v then
        Inl (TypeError (''Cannot read properties of '' @ js_string v @ '' (reading '' @
                        [squote] @ k @ [squote] @ '')''))
      else Inr (js_get v k))"

text \<open>\<open>for (const row of rows)\<close>: the elements of an array, the characters of a string;
  nothing else that a document can hold is iterable.\<close>

fun iterate :: "jsval \<Rightarrow> jsval list result" where
  "iterate (JArr xs) = Inr xs"
| "iterate (JStr s) = Inr (map (\<lambda>c. JStr [c]) s)"
| "iterate v = Inl (TypeError ''rows is not iterable'')"

text \<open>The log line of a table or of an insert names the upsert columns when
  \<open>upsertBy.length\<close> is truthy, with \<open>upsertBy.join\<close>, which only an array has.\<close>

definition upsert_note :: "jsval \<Rightarrow> unit result" where
  "upsert_note upsertBy =
     (if truthy (js_get upsertBy ''length'') then
        (case upsertBy of
           JArr ub \<Rightarrow> Inr ()
         | _ \<Rightarrow> Inl (TypeError ''upsertBy.join is not a function''))
      else Inr ())"

text \<open>The loop over the rows, which \<open>applyTableSeeds\<close> and \<open>applySeedOperations\<close> share.\<close>

fun seedRows ::
  "world \<Rightarrow> PostgresRuntime \<Rightarrow> string \<Rightarrow> jsval \<Rightarrow> jsval \<Rightarrow> jsval list \<Rightarrow>
   event list \<Rightarrow> event list \<times> unit result" where
  "seedRows W runtime db table upsertBy [] h = (h, Inr ())"
| "seedRows W runtime db table upsertBy (row # rest) h =
     (case resolveSeedRow W runtime db row h of
        (h1, Inl e) \<Rightarrow> (h1, Inl e)
      | (h1, Inr resolvedRow) \<Rightarrow>
          (case buildInsertSqlDyn table resolvedRow upsertBy of
             Inl e \<Rightarrow> (h1, Inl e)
           | Inr sql \<Rightarrow>
               (case runPsqlWithRuntime W runtime db sql h1 of
                  (h2, Inl e) \<Rightarrow> (h2, Inl e)
                | (h2, Inr u) \<Rightarrow> seedRows W runtime db table upsertBy rest h2)))"

fun applyTableSeeds ::
  "world \<Rightarrow> PostgresRuntime \<Rightarrow> string \<Rightarrow> (string \<times> jsval) list \<Rightarrow> event list \<Rightarrow>
   event list \<times> unit result" where
  "applyTableSeeds W runtime db [] h = (h, Inr ())"
| "applyTableSeeds W runtime db ((table, config) # rest) h =
     (let rows = or_else (opt_get config ''rows'') (JArr []) in
      if \<not> truthy (js_get rows ''length'') then applyTableSeeds W runtime db rest h
      else
        let action =
              or_else (opt_get config ''action'')
                (if truthy (opt_get (opt_get config ''upsertBy'') ''length'')
                 then JStr ''upsert'' else JStr ''insert'')
        in
        if action \<notin> set [JStr ''insert'', JStr ''upsert''] then
          (h, Inl (Error (''Invalid table action '' @ [dquote] @ js_string action @ [dquote] @
                          '' in table '' @ [dquote] @ table @ [dquote] @
                          ''. Use insert or upsert.'')))
        else
          let upsertBy =
                (if action = JStr ''upsert''
                 then or_else (opt_get config ''upsertBy'') (JArr []) else JArr [])
          in
          (case upsert_note upsertBy of
             Inl e \<Rightarrow> (h, Inl e)
           | Inr u \<Rightarrow>
               (case iterate rows of
                  Inl e \<Rightarrow> (h, Inl e)
                | Inr rs \<Rightarrow>
                    (case seedRows W runtime db (JStr table) upsertBy rs h of
                       (h1, Inl e) \<Rightarrow> (h1, Inl e)
                     | (h1, Inr u) \<Rightarrow> applyTableSeeds W runtime db rest h1))))"

text \<open>One turn of the loop of \<open>applySeedOperations\<close>.\<close>

definition applyOperation ::
  "world \<Rightarrow> PostgresRuntime \<Rightarrow> string \<Rightarrow> jsval \<Rightarrow> event list \<Rightarrow> event list \<times> unit result" where
  "applyOperation W runtime db operation h =
     (case read_prop operation ''table'' of
        Inl e \<Rightarrow> (h, Inl e)
      | Inr table \<Rightarrow>
          if \<not> truthy table then
            (h, Inl (Error (''Seed operation requires '' @ [dquote] @ ''table'' @ [dquote] @ ''.'')))
          else if js_get operation ''type'' = JStr ''insert'' \<or>
                  js_get operation ''type'' = JStr ''upsert'' then
            (let rows = or_else (js_get operation ''rows'') (JArr []) in
             if is_zero (js_get rows ''length'') then
               (h, Inl (Error (''Operation '' @ [dquote] @ js_string (js_get operation ''type'') @
                               [dquote] @ '' on '' @ js_string table @ '' requires '' @
                               [dquote] @ ''rows'' @ [dquote] @ ''.'')))
             else
               let upsertBy =
                     (if js_get operation ''type'' = JStr ''upsert''
                      then or_else (js_get operation ''upsertBy'') (JArr []) else JArr [])
               in
               (case upsert_note upsertBy of
                  Inl e \<Rightarrow> (h, Inl e)
                | Inr u \<Rightarrow>
                    (case iterate rows of
                       Inl e \<Rightarrow> (h, Inl e)
                     | Inr rs \<Rightarrow> seedRows W runtime db table upsertBy rs h)))
          else if js_get operation ''type'' = JStr ''update'' then
            (if \<not> truthy (js_get operation ''where'') \<or> \<not> truthy (js_get operation ''set'') then
               (h, Inl (Error (''Operation '' @ [dquote] @ ''update'' @ [dquote] @ '' on '' @
                               js_string table @ '' requires '' @ [dquote] @ ''where'' @ [dquote] @
                               '' and '' @ [dquote] @ ''set'' @ [dquote] @ ''.'')))
             else
               (case resolveSeedRow W runtime db (js_get operation ''where'') h of
                  (h1, Inl e) \<Rightarrow> (h1, Inl e)
                | (h1, Inr resolvedWhere) \<Rightarrow>
                    (case resolveSeedRow W runtime db (js_get operation ''set'') h1 of
                       (h2, Inl e) \<Rightarrow> (h2, Inl e)
                     | (h2, Inr resolvedSet) \<Rightarrow>
                         (case buildUpdateSql table resolvedSet resolvedWhere of
                            Inl e \<Rightarrow> (h2, Inl e)
                          | Inr sql \<Rightarrow> runPsqlWithRuntime W runtime db sql h2))))
          else if js_get operation ''type'' = JStr ''delete'' then
            (if \<not> truthy (js_get operation ''where'') then
               (h, Inl (Error (''Operation '' @ [dquote] @ ''delete'' @ [dquote] @ '' on '' @
                               js_string table @ '' requires '' @ [dquote] @ ''where'' @ [dquote] @
                               ''.'')))
             else
               (case resolveSeedRow W runtime db (js_get operation ''where'') h of
                  (h1, Inl e) \<Rightarrow> (h1, Inl e)
                | (h1, Inr resolvedWhere) \<Rightarrow>
                    (case buildDeleteSql table resolvedWhere of
                       Inl e \<Rightarrow> (h1, Inl e)
                     | Inr sql \<Rightarrow> runPsqlWithRuntime W runtime db sql h1)))
          else
            (h, Inl (Error (''Unsupported seed operation type '' @ [dquote] @
                            js_string (js_get operation ''type'') @ [dquote] @ ''.''))))"

fun applySeedOperations ::
  "world \<Rightarrow> PostgresRuntime \<Rightarrow> string \<Rightarrow> jsval list \<Rightarrow> event list \<Rightarrow> event list \<times> unit result" where
  "applySeedOperations W runtime db [] h = (h, Inr ())"
| "applySeedOperations W runtime db (operation # rest) h =
     (case applyOperation W runtime db operation h of
        (h1, Inl e) \<Rightarrow> (h1, Inl e)
      | (h1, Inr u) \<Rightarrow> applySeedOperations W runtime db rest h1)"

definition applyYamlSeedForDatabase ::
  "world \<Rightarrow> PostgresRuntime \<Rightarrow> string \<Rightarrow> (string \<times> jsval) list option \<Rightarrow> jsval list option \<Rightarrow>
   event list \<Rightarrow> event list \<times> unit result" where
  "applyYamlSeedForDatabase W runtime db tables ops h =
     (let operations = (case ops of None \<Rightarrow> [] | Some os \<Rightarrow> os);
          noTables = (case tables of None \<Rightarrow> True | Some ts \<Rightarrow> length ts = 0)
      in
      if noTables \<and> length operations = 0 then (h, Inr ())
      else
        (case (case tables of
                 None \<Rightarrow> (h, Inr ())
               | Some ts \<Rightarrow> if length ts > 0 then applyTableSeeds W runtime db ts h else (h, Inr ())) of
           (h1, Inl e) \<Rightarrow> (h1, Inl e)
         | (h1, Inr u) \<Rightarrow>
             if length operations > 0 then applySeedOperations W runtime db operations h1
             else (h1, Inr ())))"

subsection \<open>Resolving the runtime\<close>

record PostgresConfig =
  c_mode :: "string option"
  c_service :: "string option"
  c_user :: "string option"
  c_password :: "string option"
  c_host :: "string option"
  c_port :: "jsnum option"
  c_adminDb :: "string option"
  c_composeDir :: "string option"
  c_ssl :: "bool option"

text \<open>
  What \<open>resolvePostgresRuntime\<close> reads from its surroundings: the \<open>postgres\<close> and
  \<open>databases\<close> sections of the resolved environment, the process environment, the
  conversion \<open>Number\<close> of a text, and the default compose directory.
\<close>

record Environment =
  e_postgres :: "PostgresConfig option"
  e_databases :: "(string \<times> PostgresConfig) list option"
  e_getenv :: "string \<Rightarrow> string option"
  e_Number :: "string \<Rightarrow> jsnum"
  e_DEFAULT_COMPOSE_DIR :: string

record PostgresOptions =
  o_service :: "string option"
  o_user :: "string option"
  o_composeDir :: "string option"
  o_target :: "string option"
  o_adminDb :: "string option"

text \<open>A chain of \<open>??\<close>: the first operand that is there.\<close>

fun coalesce :: "'a option list \<Rightarrow> 'a option" where
  "coalesce [] = None"
| "coalesce (Some x # xs) = Some x"
| "coalesce (None # xs) = coalesce xs"

definition to_lower :: "string \<Rightarrow> string" where
  "to_lower s =
     map (\<lambda>c. if 65 \<le> (of_char c :: nat) \<and> (of_char c :: nat) \<le> 90
                then char_of ((of_char c :: nat) + 32) else c) s"

definition resolvePostgresRuntime ::
  "Environment \<Rightarrow> PostgresOptions \<Rightarrow> string option \<Rightarrow> PostgresRuntime" where
  "resolvePostgresRuntime env options fallbackTarget =
     (let cfg = e_postgres env;
          targetName = coalesce [o_target options, fallbackTarget];
          dbTarget =
            (case targetName of
               None \<Rightarrow> None
             | Some t \<Rightarrow>
                 if t = [] then None
                 else (case e_databases env of None \<Rightarrow> None | Some dbs \<Rightarrow> map_of dbs t));
          mode = coalesce [Option.bind dbTarget c_mode, Option.bind cfg c_mode,
                           e_getenv env ''PG_MODE'', e_getenv env ''POSTGRES_MODE'', Some ''compose''];
          service = coalesce [o_service options, Option.bind dbTarget c_service,
                              Option.bind cfg c_service, e_getenv env ''POSTGRES_SERVICE'',
                              Some ''postgres''];
          user = coalesce [o_user options, Option.bind dbTarget c_user, Option.bind cfg c_user,
                           e_getenv env ''POSTGRES_USER'', Some ''postgres''];
          password = coalesce [Option.bind dbTarget c_password, Option.bind cfg c_password,
                               e_getenv env ''POSTGRES_PASSWORD'', e_getenv env ''PG_PASSWORD''];
          host = coalesce [Option.bind dbTarget c_host, Option.bind cfg c_host,
                           e_getenv env ''POSTGRES_HOST'', e_getenv env ''PG_HOST''];
          envNumber = (\<lambda>name. case e_getenv env name of
                                 None \<Rightarrow> None
                               | Some v \<Rightarrow> if v = [] then None else Some (e_Number env v));
          port = coalesce [Option.bind dbTarget c_port, Option.bind cfg c_port,
                           envNumber ''POSTGRES_PORT'', envNumber ''PG_PORT'',
                           Some (Finite False 5432 4)];
          adminDb = coalesce [o_adminDb options, Option.bind dbTarget c_adminDb,
                              Option.bind cfg c_adminDb, e_getenv env ''POSTGRES_ADMIN_DB'',
                              Some ''postgres''];
          composeDir = coalesce [o_composeDir options, Option.bind dbTarget c_composeDir,
                                 Option.bind cfg c_composeDir, Some (e_DEFAULT_COMPOSE_DIR env)];
          ssl = coalesce [Option.bind dbTarget c_ssl, Option.bind cfg c_ssl,
                          (case e_getenv env ''POSTGRES_SSL'' of
                             None \<Rightarrow> None
                           | Some v \<Rightarrow> if v = [] then None else Some (to_lower v = ''true''))]
      in
      \<lparr>rt_mode = (if mode = Some ''direct'' then Direct else Compose),
       rt_service = (case service of Some v \<Rightarrow> v | None \<Rightarrow> ''postgres''),
       rt_user = (case user of Some v \<Rightarrow> v | None \<Rightarrow> ''postgres''),
       rt_password = password,
       rt_host = host,
       rt_port = port,
       rt_adminDb = (case adminDb of Some v \<Rightarrow> v | None \<Rightarrow> ''postgres''),
       rt_composeDir = (case composeDir of Some v \<Rightarrow> v | None \<Rightarrow> e_DEFAULT_COMPOSE_DIR env),
       rt_ssl = ssl\<rparr>)"

subsection \<open>The seed document\<close>

text \<open>
  The parsed YAML document. Its sections have the shape that the declared type \<open>SeedYaml\<close>
  gives them: \<open>variables\<close>, \<open>tables\<close> and \<open>databases\<close> are objects, \<open>operations\<close> is a
  list, \<open>db\<close> and \<open>target\<close> are strings, each of them possibly absent. What the sections
  hold, the variable values, the table entries and the operations, are values of any kind,
  which the interpreter reads field by field.
\<close>

record SeedDatabase =
  d_db :: "string option"
  d_target :: "string option"
  d_variables :: "(string \<times> jsval) list option"
  d_tables :: "(string \<times> jsval) list option"
  d_operations :: "jsval list option"

record SeedYaml =
  y_variables :: "(string \<times> jsval) list option"
  y_tables :: "(string \<times> jsval) list option"
  y_operations :: "jsval list option"
  y_databases :: "(string \<times> SeedDatabase) list option"

record PostgresSeedYamlOptions =
  s_db :: "string option"
  s_service :: "string option"
  s_user :: "string option"
  s_composeDir :: "string option"
  s_target :: "string option"

fun array_items :: "jsval \<Rightarrow> jsval list" where
  "array_items (JArr xs) = xs"
| "array_items v = []"

text \<open>The spread \<open>{...a, ...b}\<close> of two objects.\<close>

definition spread :: "(string \<times> jsval) list \<Rightarrow> (string \<times> jsval) list \<Rightarrow> (string \<times> jsval) list" where
  "spread a b = fold (\<lambda>p acc. set_prop acc (fst p) (snd p)) b a"

text \<open>One turn of the loop over the entries of \<open>databases\<close>.\<close>

definition applyDatabaseEntry ::
  "world \<Rightarrow> Environment \<Rightarrow> PostgresSeedYamlOptions \<Rightarrow> (string \<times> jsval) list \<Rightarrow>
   string \<times> SeedDatabase \<Rightarrow> event list \<Rightarrow> event list \<times> unit result" where
  "applyDatabaseEntry W env options globalVariables entry h =
     (let databaseKey = fst entry;
          dbConfig = snd entry;
          dbName = (case d_db dbConfig of Some n \<Rightarrow> n | None \<Rightarrow> databaseKey);
          target = (case d_target dbConfig of Some t \<Rightarrow> t | None \<Rightarrow> databaseKey);
          runtime = resolvePostgresRuntime env
                      \<lparr>o_service = s_service options, o_user = s_user options,
                       o_composeDir = s_composeDir options, o_target = Some target,
                       o_adminDb = None\<rparr>
                      (Some target);
          mergedVariables =
            spread globalVariables (case d_variables dbConfig of None \<Rightarrow> [] | Some vs \<Rightarrow> vs);
          scopedTables =
            object_entries
              (applySeedVariables
                 (JObj (case d_tables dbConfig of None \<Rightarrow> [] | Some ts \<Rightarrow> ts)) mergedVariables);
          scopedOperations =
            array_items
              (applySeedVariables
                 (JArr (case d_operations dbConfig of None \<Rightarrow> [] | Some os \<Rightarrow> os)) mergedVariables)
      in applyYamlSeedForDatabase W runtime dbName (Some scopedTables) (Some scopedOperations) h)"

fun applyDatabases ::
  "world \<Rightarrow> Environment \<Rightarrow> PostgresSeedYamlOptions \<Rightarrow> (string \<times> jsval) list \<Rightarrow>
   (string \<times> SeedDatabase) list \<Rightarrow> event list \<Rightarrow> event list \<times> unit result" where
  "applyDatabases W env options globalVariables [] h = (h, Inr ())"
| "applyDatabases W env options globalVariables (entry # rest) h =
     (case applyDatabaseEntry W env options globalVariables entry h of
        (h1, Inl e) \<Rightarrow> (h1, Inl e)
      | (h1, Inr u) \<Rightarrow> applyDatabases W env options globalVariables rest h1)"

definition applyYamlSeed ::
  "world \<Rightarrow> Environment \<Rightarrow> PostgresSeedYamlOptions \<Rightarrow> SeedYaml \<Rightarrow> event list \<Rightarrow>
   event list \<times> unit result" where
  "applyYamlSeed W env options seed h =
     (let defaultDb = (case s_db options of Some d \<Rightarrow> d | None \<Rightarrow> ''postgres'');
          globalVariables = (case y_variables seed of None \<Rightarrow> [] | Some vs \<Rightarrow> vs);
          hasDefaultPayload =
            ((case y_tables seed of None \<Rightarrow> False | Some ts \<Rightarrow> length ts > 0) \<or>
             (case y_operations seed of None \<Rightarrow> False | Some os \<Rightarrow> length os > 0));
          hasDatabasesPayload =
            (case y_databases seed of None \<Rightarrow> False | Some ds \<Rightarrow> length ds > 0)
      in
      if \<not> hasDefaultPayload \<and> \<not> hasDatabasesPayload then (h, Inr ())
      else
        (case (if hasDefaultPayload then
                 (let runtime = resolvePostgresRuntime env
                                  \<lparr>o_service = s_service options, o_user = s_user options,
                                   o_composeDir = s_composeDir options, o_target = s_target options,
                                   o_adminDb = None\<rparr>
                                  (Some defaultDb);
                      defaultTables =
                        object_entries
                          (applySeedVariables
                             (JObj (case y_tables seed of None \<Rightarrow> [] | Some ts \<Rightarrow> ts))
                             globalVariables);
                      defaultOperations =
                        array_items
                          (applySeedVariables
                             (JArr (case y_operations seed of None \<Rightarrow> [] | Some os \<Rightarrow> os))
                             globalVariables)
                  in applyYamlSeedForDatabase W runtime defaultDb (Some defaultTables)
                       (Some defaultOperations) h)
               else (h, Inr ())) of
           (h1, Inl e) \<Rightarrow> (h1, Inl e)
         | (h1, Inr u) \<Rightarrow>
             (case y_databases seed of
                None \<Rightarrow> (h1, Inr ())
              | Some ds \<Rightarrow>
                  if hasDatabasesPayload then applyDatabases W env options globalVariables ds h1
                  else (h1, Inr ()))))"

section \<open>api-virtual: response templates\<close>

text \<open>
  A match of \<open>{{\s*([^}]+)\s*}}\<close> at the start of a string: the captured token and the text
  after the match. The token class holds every character but the closing brace, white
  space included: the token runs up to the first closing brace, and the greedy \<open>\s*\<close> in
  front of it gives a character back only when the token would be empty otherwise.
\<close>

definition template_token :: "string \<Rightarrow> string" where
  "template_token body =
     (if dropWhile is_space body = [] then [last body] else dropWhile is_space body)"

definition match_template :: "string \<Rightarrow> (string \<times> string) option" where
  "match_template s =
     (case strip_prefix ''{{'' s of
        None \<Rightarrow> None
      | Some r \<Rightarrow>
          if takeWhile (\<lambda>c. c \<noteq> CHR ''}'') r = [] then None
          else
            (case strip_prefix ''}}'' (dropWhile (\<lambda>c. c \<noteq> CHR ''}'') r) of
               None \<Rightarrow> None
             | Some rest \<Rightarrow> Some (template_token (takeWhile (\<lambda>c. c \<noteq> CHR ''}'') r), rest)))"

lemma match_template_shorter:
  assumes "match_template s = Some (tok, rest)"
  shows "length rest < length s"
proof -
  from assms obtain r where
    a: "strip_prefix ''{{'' s = Some r" and
    c: "strip_prefix ''}}'' (dropWhile (\<lambda>c. c \<noteq> CHR ''}'') r) = Some rest"
    unfolding match_template_def by (auto split: option.splits if_splits)
  have "length s = 2 + length r"
    using strip_prefix_length[OF a] by simp
  moreover have "length (dropWhile (\<lambda>c. c \<noteq> CHR ''}'') r) = 2 + length rest"
    using strip_prefix_length[OF c] by simp
  moreover have "length (dropWhile (\<lambda>c. c \<noteq> CHR ''}'') r) \<le> length r"
    by (rule length_dropWhile_le)
  ultimately show ?thesis by linarith
qed

text \<open>
  The path of a token is followed with \<open>acc?.[part]\<close>, which reads a property of any
  value and gives \<open>undefined\<close> on \<open>null\<close> and \<open>undefined\<close>.
\<close>

function interpolateString :: "string \<Rightarrow> (string \<times> jsval) list \<Rightarrow> string" where
  "interpolateString [] context = []"
| "interpolateString (c # cs) context =
     (case match_template (c # cs) of
        Some (token, rest) \<Rightarrow>
          (let v = fold (\<lambda>part acc. js_get acc part) (split_on CHR ''.'' token) (JObj context) in
           (if v \<noteq> JUndefined then js_string v else []) @ interpolateString rest context)
      | None \<Rightarrow> c # interpolateString cs context)"
  by pat_completeness auto
termination
  by (relation "measure (\<lambda>(s, ctx). length s)") (auto dest: match_template_shorter)

fun applyTemplate :: "jsval \<Rightarrow> (string \<times> jsval) list \<Rightarrow> jsval" where
  "applyTemplate (JStr s) context = JStr (interpolateString s context)"
| "applyTemplate (JArr xs) context = JArr (map (\<lambda>item. applyTemplate item context) xs)"
| "applyTemplate (JObj ps) context =
     JObj (map (\<lambda>p. (fst p, applyTemplate (snd p) context)) ps)"
| "applyTemplate (JDate d) context = JObj []"
| "applyTemplate v context = v"

section \<open>OpenSearch: normalising a bulk payload\<close>





text \<open>The branch for a bulk-meta line, a one-key object \<open>{[action]: value}\<close>.\<close>















section \<open>Parties: the reset command\<close>

text \<open>
  Of a party the command reads the identifier and \<open>orgId\<close>, which is a string, \<open>null\<close>
  (a root organization) or absent.
\<close>

datatype org_ref = OrgUndefined | OrgNull | OrgId string

record PartyDTO =
  party_id :: string
  party_orgId :: org_ref

text \<open>\<open>if (party.orgId)\<close>: the parent, when \<open>orgId\<close> is a string that is not empty.\<close>

fun parent_of :: "PartyDTO \<Rightarrow> string option" where
  "parent_of party =
     (case party_orgId party of
        OrgId org \<Rightarrow> if org = [] then None else Some org
      | _ \<Rightarrow> None)"

text \<open>\<open>new Map(parties.map(item => [item.id, item]))\<close>: a later entry replaces an earlier one.\<close>

definition partyById :: "PartyDTO list \<Rightarrow> string \<Rightarrow> PartyDTO option" where
  "partyById parties = map_of (rev (map (\<lambda>item. (party_id item, item)) parties))"

text \<open>The map from a parent to the set of its children, a set being a list without
  repetition.\<close>

definition add_child ::
  "PartyDTO \<Rightarrow> (string \<Rightarrow> string list option) \<Rightarrow> (string \<Rightarrow> string list option)" where
  "add_child party m =
     (case parent_of party of
        None \<Rightarrow> m
      | Some org \<Rightarrow>
          m(org \<mapsto> List.insert (party_id party) (case m org of None \<Rightarrow> [] | Some s \<Rightarrow> s)))"

definition childrenMap :: "PartyDTO list \<Rightarrow> string \<Rightarrow> string list option" where
  "childrenMap parties = fold add_child parties Map.empty"

definition count_children ::
  "(string \<Rightarrow> string list option) \<Rightarrow> string list \<Rightarrow> PartyDTO \<Rightarrow>
   (string \<Rightarrow> int option) \<Rightarrow> (string \<Rightarrow> int option)" where
  "count_children cm deletableIds party m =
     (case cm (party_id party) of
        None \<Rightarrow> m(party_id party \<mapsto> 0)
      | Some children \<Rightarrow>
          m(party_id party \<mapsto> int (length (filter (\<lambda>childId. childId \<in> set deletableIds) children))))"

text \<open>
  The state of the loop: the queue (an array used as a stack, written here with its last
  element first), the processed identifiers, the counts, and the identifiers submitted to
  \<open>DELETE /parties/:id\<close> so far, in order. Whether a request succeeds is decided by the
  server, a function of the requests made before and the identifier.
\<close>

record reset_state =
  queue :: "string list"
  processed :: "string set"
  childCount :: "string \<Rightarrow> int option"
  submitted :: "string list"

definition reset_measure :: "string list \<Rightarrow> reset_state \<Rightarrow> nat" where
  "reset_measure deletableIds st =
     sum_list (map (\<lambda>q. if q \<in> set deletableIds then 1 else 2) (queue st)) +
     card (set deletableIds - processed st)"

lemma card_unprocessed:
  "x \<in> set ds \<Longrightarrow> x \<notin> P \<Longrightarrow> card (set ds - insert x P) < card (set ds - P)"
  by (rule psubset_card_mono) auto

lemma card_unprocessed_le: "card (set ds - insert x P) \<le> card (set ds - P)"
  by (rule card_mono) auto

function resetLoop ::
  "(string list \<Rightarrow> string \<Rightarrow> bool) \<Rightarrow> (string \<Rightarrow> PartyDTO option) \<Rightarrow> string list \<Rightarrow> reset_state \<Rightarrow>
   string list \<times> unit result" where
  "resetLoop server byId deletableIds st =
     (case queue st of
        [] \<Rightarrow> (submitted st, Inr ())
      | currentId # rest \<Rightarrow>
          if currentId \<in> processed st then
            resetLoop server byId deletableIds (st\<lparr>queue := rest\<rparr>)
          else
            (case byId currentId of
               None \<Rightarrow>
                 resetLoop server byId deletableIds
                   (st\<lparr>queue := rest, processed := insert currentId (processed st)\<rparr>)
             | Some party \<Rightarrow>
                 if \<not> server (submitted st) (party_id party) then
                   (submitted st @ [party_id party], Inl (Error ''Request failed''))
                 else
                   (case parent_of party of
                      None \<Rightarrow>
                        resetLoop server byId deletableIds
                          (st\<lparr>queue := rest, processed := insert currentId (processed st),
                              submitted := submitted st @ [party_id party]\<rparr>)
                    | Some org \<Rightarrow>
                        if org \<in> set deletableIds then
                          (let remaining =
                                 (case childCount st org of None \<Rightarrow> 0 | Some n \<Rightarrow> n) - 1
                           in resetLoop server byId deletableIds
                                (st\<lparr>queue := (if remaining \<le> 0 then org # rest else rest),
                                    processed := insert currentId (processed st),
                                    childCount := (childCount st)(org \<mapsto> max remaining 0),
                                    submitted := submitted st @ [party_id party]\<rparr>))
                        else
                          resetLoop server byId deletableIds
                            (st\<lparr>queue := rest, processed := insert currentId (processed st),
                                submitted := submitted st @ [party_id party]\<rparr>))))"
  by pat_completeness auto

termination
proof (relation "measure (\<lambda>(server, byId, ds, st). reset_measure ds st)", goal_cases)
  case 1
  show ?case by simp
next
  case (2 server byId ds st currentId rest)
  then show ?case by (simp add: reset_measure_def)
next
  case (3 server byId ds st currentId rest)
  then show ?case
    using card_unprocessed_le[of ds currentId "processed st"]
      card_unprocessed[of currentId ds "processed st"]
    by (cases "currentId \<in> set ds") (auto simp: reset_measure_def)
next
  case (4 server byId ds st currentId rest party)
  then show ?case
    using card_unprocessed_le[of ds currentId "processed st"]
      card_unprocessed[of currentId ds "processed st"]
    by (cases "currentId \<in> set ds") (auto simp: reset_measure_def)
next
  case (5 server byId ds st currentId rest party org remaining)
  then show ?case
    using card_unprocessed_le[of ds currentId "processed st"]
      card_unprocessed[of currentId ds "processed st"]
    by (cases "currentId \<in> set ds") (auto simp: reset_measure_def)
next
  case (6 server byId ds st currentId rest party org)
  then show ?case
    using card_unprocessed_le[of ds currentId "processed st"]
      card_unprocessed[of currentId ds "processed st"]
    by (cases "currentId \<in> set ds") (auto simp: reset_measure_def)
qed

declare resetLoop.simps [simp del]

definition resetParties ::
  "(string list \<Rightarrow> string \<Rightarrow> bool) \<Rightarrow> bool \<Rightarrow> PartyDTO list \<Rightarrow> string list \<times> unit result" where
  "resetParties server removeRoots parties =
     (if length parties = 0 then ([], Inr ())
      else
        let removable = filter (\<lambda>party. removeRoots \<or> party_orgId party \<noteq> OrgNull) parties in
        if length removable = 0 then ([], Inr ())
        else
          let deletableIds = map party_id removable;
              cm = childrenMap parties;
              counts = fold (count_children cm deletableIds) removable Map.empty;
              initial = map party_id
                          (filter (\<lambda>party. (case counts (party_id party) of
                                                None \<Rightarrow> 0 | Some n \<Rightarrow> n) = 0)
                             removable)
          in resetLoop server (partyById parties) deletableIds
               \<lparr>queue = rev initial, processed = {}, childCount = counts, submitted = []\<rparr>)"

text \<open>
  The children of a party that can be deleted, as the command sees them: the identifiers
  in the deletable set of the parties whose parent it is.
\<close>

definition kids :: "PartyDTO list \<Rightarrow> string list \<Rightarrow> string \<Rightarrow> string set" where
  "kids parties ds p = {c \<in> set ds. \<exists>party \<in> set parties. party_id party = c \<and> parent_of party = Some p}"

text \<open>
  Leaves first: no identifier is submitted twice, only deletable identifiers are
  submitted, and when an identifier is submitted, every deletable child of it has been
  submitted before.
\<close>

definition leaves_first :: "PartyDTO list \<Rightarrow> string list \<Rightarrow> string list \<Rightarrow> bool" where
  "leaves_first parties ds trace =
     (distinct trace \<and> set trace \<subseteq> set ds \<and>
      (\<forall>pre p post. trace = pre @ p # post \<longrightarrow> kids parties ds p \<subseteq> set pre))"

definition reset_inv :: "PartyDTO list \<Rightarrow> string list \<Rightarrow> reset_state \<Rightarrow> bool" where
  "reset_inv parties ds st =
     (set (queue st) \<subseteq> set ds \<and>
      set (submitted st) = processed st \<and>
      processed st \<subseteq> set ds \<and>
      distinct (submitted st) \<and>
      (\<forall>q \<in> set (queue st). kids parties ds q \<subseteq> processed st) \<and>
      (\<forall>p \<in> set ds. \<exists>n. childCount st p = Some n \<and>
                        int (card (kids parties ds p - processed st)) \<le> n) \<and>
      (\<forall>pre p post. submitted st = pre @ p # post \<longrightarrow> kids parties ds p \<subseteq> set pre))"

text \<open>The set a children map holds for a parent, and the count the command stores for it.\<close>

definition children_of :: "(string \<Rightarrow> string list option) \<Rightarrow> string \<Rightarrow> string set" where
  "children_of m p = (case m p of None \<Rightarrow> {} | Some s \<Rightarrow> set s)"

definition counted :: "(string \<Rightarrow> string list option) \<Rightarrow> string list \<Rightarrow> string \<Rightarrow> int" where
  "counted cm ds p =
     (case cm p of
        None \<Rightarrow> 0
      | Some children \<Rightarrow> int (length (filter (\<lambda>childId. childId \<in> set ds) children)))"

section \<open>api-virtual: hot reload\<close>

text \<open>
  A snapshot of the file system: the listing of the resources root (nothing when the root
  does not exist, an error when \<open>readdirSync\<close> raises on it, as it does on a root that is a
  regular file), and what \<open>statSync\<close> gives for a path (nothing when it raises). A directory
  entry is a directory with its listing, a directory on which \<open>readdirSync\<close> raises, a
  regular file, or something else.
\<close>

datatype fs_entry = Dir string "fs_entry list" | Unreadable string error | File string | Other string

record file_stat =
  mtimeMs :: jsnum
  size :: jsnum

record file_system =
  root_listing :: "fs_entry list result option"
  statSync :: "string \<Rightarrow> file_stat option"

definition ends_with :: "string \<Rightarrow> string \<Rightarrow> bool" where
  "ends_with suffix s = (length suffix \<le> length s \<and> drop (length s - length suffix) s = suffix)"

definition path_join :: "string \<Rightarrow> string \<Rightarrow> string" where
  "path_join dir name = dir @ ''/'' @ name"

fun collectEntries :: "string \<Rightarrow> fs_entry list \<Rightarrow> string list result"
  and collectEntry :: "string \<Rightarrow> fs_entry \<Rightarrow> string list result" where
  "collectEntries dir [] = Inr []"
| "collectEntries dir (entry # rest) =
     (case collectEntry dir entry of
        Inl e \<Rightarrow> Inl e
      | Inr found \<Rightarrow>
          (case collectEntries dir rest of
             Inl e \<Rightarrow> Inl e
           | Inr others \<Rightarrow> Inr (found @ others)))"
| "collectEntry dir (Dir name children) = collectEntries (path_join dir name) children"
| "collectEntry dir (Unreadable name e) = Inl e"
| "collectEntry dir (File name) =
     (if ends_with ''.yaml'' name \<or> ends_with ''.yml'' name then Inr [path_join dir name]
      else Inr [])"
| "collectEntry dir (Other name) = Inr []"

definition collectYamlFiles :: "file_system \<Rightarrow> string \<Rightarrow> string list result" where
  "collectYamlFiles fs dir =
     (case root_listing fs of
        None \<Rightarrow> Inr []
      | Some (Inl e) \<Rightarrow> Inl e
      | Some (Inr entries) \<Rightarrow> collectEntries dir entries)"

text \<open>\<open>Array.prototype.sort\<close> without a comparator: the order of the code units.\<close>

fun string_le :: "string \<Rightarrow> string \<Rightarrow> bool" where
  "string_le [] t = True"
| "string_le (c # s) [] = False"
| "string_le (c # s) (d # t) =
     ((of_char c :: nat) < of_char d \<or> (c = d \<and> string_le s t))"

fun insert_sorted :: "string \<Rightarrow> string list \<Rightarrow> string list" where
  "insert_sorted x [] = [x]"
| "insert_sorted x (y # ys) = (if string_le x y then x # y # ys else y # insert_sorted x ys)"

definition sort_strings :: "string list \<Rightarrow> string list" where
  "sort_strings xs = foldr insert_sorted xs []"

text \<open>Only \<open>statSync\<close> is guarded in \<open>fingerprintResources\<close>: what \<open>collectYamlFiles\<close>
  raises goes through.\<close>

definition fingerprintResources :: "file_system \<Rightarrow> string \<Rightarrow> string result" where
  "fingerprintResources fs root =
     (case collectYamlFiles fs root of
        Inl e \<Rightarrow> Inl e
      | Inr files \<Rightarrow>
          Inr (join ''|''
                 (sort_strings
                    (map (\<lambda>file. case statSync fs file of
                                    Some stat \<Rightarrow>
                                      file @ '':'' @ num_str (mtimeMs stat) @ '':'' @
                                      num_str (size stat)
                                  | None \<Rightarrow> [])
                       files))))"

text \<open>
  The state of the server that a reload touches: the application state (with its router),
  the handler cache, the recorded fingerprint, and the calls to \<open>log\<close>. Building the
  application state reads the resources and may raise.
\<close>

record 'a server_state =
  currentState :: 'a
  handlerCache :: "string list"
  lastResourcesFingerprint :: string
  logged :: "(string \<times> string) list"

fun error_message :: "error \<Rightarrow> string" where
  "error_message (Error m) = m"
| "error_message (TypeError m) = m"
| "error_message (RangeError m) = m"

text \<open>
  \<open>reloadResources\<close>: the assignments follow one another inside one \<open>try\<close>, the new state
  and the cleared cache first and the fingerprint last, and the \<open>catch\<close> clause logs and
  returns \<open>false\<close> whatever has been assigned by then.
\<close>

definition reloadResources ::
  "(file_system \<Rightarrow> 'a result) \<Rightarrow> string \<Rightarrow> file_system \<Rightarrow> string \<Rightarrow> 'a server_state \<Rightarrow>
   'a server_state \<times> bool" where
  "reloadResources buildAppState root fs trigger st =
     (case buildAppState fs of
        Inl e \<Rightarrow>
          (st\<lparr>logged := logged st @
                 [(''error'', ''Reload failed ('' @ trigger @ ''): '' @ error_message e)]\<rparr>,
           False)
      | Inr nextState \<Rightarrow>
          (let installed = st\<lparr>currentState := nextState, handlerCache := []\<rparr> in
           case fingerprintResources fs root of
             Inl e \<Rightarrow>
               (installed\<lparr>logged := logged st @
                   [(''error'', ''Reload failed ('' @ trigger @ ''): '' @ error_message e)]\<rparr>,
                False)
           | Inr fingerprint \<Rightarrow>
               (installed\<lparr>lastResourcesFingerprint := fingerprint,
                          logged := logged st @
                            [(''info'', ''Reloaded resources ('' @ trigger @ '')'')]\<rparr>,
                True)))"

text \<open>
  An example: a resources root with a configuration file, one API and a directory that
  cannot be listed, which building the application state does not visit; and a server
  state that holds the application state \<open>5\<close>.
\<close>

definition example_fs :: file_system where
  "example_fs =
     \<lparr>root_listing = Some (Inr
        [File ''config.yaml'',
         Dir ''apis'' [Dir ''a'' [File ''openapi.yaml'', File ''handlers.yaml'']],
         Unreadable ''private''
           (Error ''EACCES: permission denied, scandir /r/private'')]),
      statSync = (\<lambda>p. Some \<lparr>mtimeMs = Finite False 2 1, size = Finite False 3 1\<rparr>)\<rparr>"

definition example_server :: "nat server_state" where
  "example_server =
     \<lparr>currentState = 5, handlerCache = [''h''], lastResourcesFingerprint = [], logged = []\<rparr>"

section \<open>Postgres seed-yaml: the order of execution, as specified\<close>

text \<open>
  The specification describes a seed run as a flat sequence of pieces of work, carried
  out one after the other: a row to insert, an operation that is a single statement (or
  that is rejected before any statement), or a validation failure that stops the run.
\<close>

datatype work_item =
    InsertRow PostgresRuntime string jsval jsval jsval
  | RunOperation PostgresRuntime string jsval
  | Abort error

fun run_item :: "world \<Rightarrow> work_item \<Rightarrow> event list \<Rightarrow> event list \<times> unit result" where
  "run_item W (InsertRow runtime db table upsertBy row) h =
     seedRows W runtime db table upsertBy [row] h"
| "run_item W (RunOperation runtime db operation) h = applyOperation W runtime db operation h"
| "run_item W (Abort e) h = (h, Inl e)"

text \<open>Strictly sequential: the items in list order, stopping at the first failure.\<close>

fun run_in_order :: "world \<Rightarrow> work_item list \<Rightarrow> event list \<Rightarrow> event list \<times> unit result" where
  "run_in_order W [] h = (h, Inr ())"
| "run_in_order W (item # rest) h =
     (case run_item W item h of
        (h1, Inl e) \<Rightarrow> (h1, Inl e)
      | (h1, Inr u) \<Rightarrow> run_in_order W rest h1)"

text \<open>The rows of one table, in their listed order; nothing for a table without rows, and
  a failure for a table that is rejected before its first row.\<close>

definition spec_table_items :: "PostgresRuntime \<Rightarrow> string \<Rightarrow> string \<times> jsval \<Rightarrow> work_item list" where
  "spec_table_items runtime db entry =
     (let config = snd entry;
          rows = or_else (opt_get config ''rows'') (JArr [])
      in
      if \<not> truthy (js_get rows ''length'') then []
      else
        let action =
              or_else (opt_get config ''action'')
                (if truthy (opt_get (opt_get config ''upsertBy'') ''length'')
                 then JStr ''upsert'' else JStr ''insert'')
        in
        if action \<notin> set [JStr ''insert'', JStr ''upsert''] then
          [Abort (Error (''Invalid table action '' @ [dquote] @ js_string action @ [dquote] @
                         '' in table '' @ [dquote] @ fst entry @ [dquote] @
                         ''. Use insert or upsert.''))]
        else
          let upsertBy =
                (if action = JStr ''upsert''
                 then or_else (opt_get config ''upsertBy'') (JArr []) else JArr [])
          in
          (case upsert_note upsertBy of
             Inl e \<Rightarrow> [Abort e]
           | Inr u \<Rightarrow>
               (case iterate rows of
                  Inl e \<Rightarrow> [Abort e]
                | Inr rs \<Rightarrow> map (InsertRow runtime db (JStr (fst entry)) upsertBy) rs)))"

text \<open>One operation: its rows in their listed order when it inserts rows (or the failure
  that rejects it before its first row), itself otherwise.\<close>

definition spec_operation_items :: "PostgresRuntime \<Rightarrow> string \<Rightarrow> jsval \<Rightarrow> work_item list" where
  "spec_operation_items runtime db operation =
     (case read_prop operation ''table'' of
        Inl e \<Rightarrow> [Abort e]
      | Inr table \<Rightarrow>
          if truthy table \<and>
             (js_get operation ''type'' = JStr ''insert'' \<or>
              js_get operation ''type'' = JStr ''upsert'') then
            (let rows = or_else (js_get operation ''rows'') (JArr []) in
             if is_zero (js_get rows ''length'') then
               [Abort (Error (''Operation '' @ [dquote] @ js_string (js_get operation ''type'') @
                              [dquote] @ '' on '' @ js_string table @ '' requires '' @
                              [dquote] @ ''rows'' @ [dquote] @ ''.''))]
             else
               let upsertBy =
                     (if js_get operation ''type'' = JStr ''upsert''
                      then or_else (js_get operation ''upsertBy'') (JArr []) else JArr [])
               in
               (case upsert_note upsertBy of
                  Inl e \<Rightarrow> [Abort e]
                | Inr u \<Rightarrow>
                    (case iterate rows of
                       Inl e \<Rightarrow> [Abort e]
                     | Inr rs \<Rightarrow> map (InsertRow runtime db table upsertBy) rs)))
          else [RunOperation runtime db operation])"

text \<open>One database scope: every row of every table, the tables in their entry order,
  and then the operations in their listed order.\<close>

definition spec_scope_items ::
  "PostgresRuntime \<Rightarrow> string \<Rightarrow> (string \<times> jsval) list \<Rightarrow> jsval list \<Rightarrow> work_item list" where
  "spec_scope_items runtime db tables operations =
     concat (map (spec_table_items runtime db) tables) @
     concat (map (spec_operation_items runtime db) operations)"

text \<open>The scope of the top-level payload, and the scope of one entry of
  \<open>databases\<close>.\<close>

definition spec_default_items ::
  "Environment \<Rightarrow> PostgresSeedYamlOptions \<Rightarrow> SeedYaml \<Rightarrow> work_item list" where
  "spec_default_items env options seed =
     spec_scope_items
       (resolvePostgresRuntime env
          \<lparr>o_service = s_service options, o_user = s_user options,
           o_composeDir = s_composeDir options, o_target = s_target options, o_adminDb = None\<rparr>
          (Some (case s_db options of Some d \<Rightarrow> d | None \<Rightarrow> ''postgres'')))
       (case s_db options of Some d \<Rightarrow> d | None \<Rightarrow> ''postgres'')
       (object_entries
          (applySeedVariables (JObj (case y_tables seed of None \<Rightarrow> [] | Some ts \<Rightarrow> ts))
             (case y_variables seed of None \<Rightarrow> [] | Some vs \<Rightarrow> vs)))
       (array_items
          (applySeedVariables (JArr (case y_operations seed of None \<Rightarrow> [] | Some os \<Rightarrow> os))
             (case y_variables seed of None \<Rightarrow> [] | Some vs \<Rightarrow> vs)))"

definition entry_db :: "string \<times> SeedDatabase \<Rightarrow> string" where
  "entry_db entry = (case d_db (snd entry) of Some n \<Rightarrow> n | None \<Rightarrow> fst entry)"

definition entry_target :: "string \<times> SeedDatabase \<Rightarrow> string" where
  "entry_target entry = (case d_target (snd entry) of Some t \<Rightarrow> t | None \<Rightarrow> fst entry)"

definition entry_runtime ::
  "Environment \<Rightarrow> PostgresSeedYamlOptions \<Rightarrow> string \<times> SeedDatabase \<Rightarrow> PostgresRuntime" where
  "entry_runtime env options entry =
     resolvePostgresRuntime env
       \<lparr>o_service = s_service options, o_user = s_user options,
        o_composeDir = s_composeDir options, o_target = Some (entry_target entry),
        o_adminDb = None\<rparr>
       (Some (entry_target entry))"

definition entry_variables ::
  "(string \<times> jsval) list \<Rightarrow> string \<times> SeedDatabase \<Rightarrow> (string \<times> jsval) list" where
  "entry_variables globalVariables entry =
     spread globalVariables (case d_variables (snd entry) of None \<Rightarrow> [] | Some vs \<Rightarrow> vs)"

definition spec_entry_items ::
  "Environment \<Rightarrow> PostgresSeedYamlOptions \<Rightarrow> (string \<times> jsval) list \<Rightarrow> string \<times> SeedDatabase \<Rightarrow>
   work_item list" where
  "spec_entry_items env options globalVariables entry =
     spec_scope_items (entry_runtime env options entry) (entry_db entry)
       (object_entries
          (applySeedVariables
             (JObj (case d_tables (snd entry) of None \<Rightarrow> [] | Some ts \<Rightarrow> ts))
             (entry_variables globalVariables entry)))
       (array_items
          (applySeedVariables
             (JArr (case d_operations (snd entry) of None \<Rightarrow> [] | Some os \<Rightarrow> os))
             (entry_variables globalVariables entry)))"

text \<open>The whole run: the top-level payload first, then the entries of \<open>databases\<close> in
  their entry order.\<close>

definition spec_order ::
  "Environment \<Rightarrow> PostgresSeedYamlOptions \<Rightarrow> SeedYaml \<Rightarrow> work_item list" where
  "spec_order env options seed =
     spec_default_items env options seed @
     concat (map (spec_entry_items env options
                    (case y_variables seed of None \<Rightarrow> [] | Some vs \<Rightarrow> vs))
               (case y_databases seed of None \<Rightarrow> [] | Some ds \<Rightarrow> ds))"

section \<open>Postgres seed-yaml: where the statements go\<close>


fun event_db :: "event \<Rightarrow> string" where
  "event_db (Psql runtime db sql) = db"
| "event_db (PsqlCapture runtime db sql) = db"

fun event_sql :: "event \<Rightarrow> string" where
  "event_sql (Psql runtime db sql) = sql"
| "event_sql (PsqlCapture runtime db sql) = sql"




text \<open>
  An example: no configuration and an empty process environment, a database that answers
  \<open>7\<close> to every request, and a seed with a top-level table of two rows, a top-level
  operation, and one entry of \<open>databases\<close> that overrides the variable \<open>ORG\<close>.
\<close>

definition example_env :: Environment where
  "example_env =
     \<lparr>e_postgres = None, e_databases = None, e_getenv = (\<lambda>name. None),
      e_Number = (\<lambda>s. NaN), e_DEFAULT_COMPOSE_DIR = ''/compose''\<rparr>"

definition example_options :: PostgresSeedYamlOptions where
  "example_options =
     \<lparr>s_db = None, s_service = None, s_user = None, s_composeDir = None, s_target = None\<rparr>"

definition example_world :: world where
  "example_world h ev = Inr ''7''"

definition example_seed :: SeedYaml where
  "example_seed =
     \<lparr>y_variables = Some [(''ORG'', JStr ''main'')],
      y_tables = Some
        [(''Party'',
          JObj [(''upsertBy'', JArr [JStr ''name'']),
                (''rows'', JArr [JObj [(''name'', JStr ''{{vars.ORG}}'')],
                                 JObj [(''name'', JStr ''b'')]])])],
      y_operations = Some
        [JObj [(''type'', JStr ''delete''), (''table'', JStr ''Account''),
               (''where'', JObj [(''ref'', JStr ''x'')])]],
      y_databases = Some
        [(''wallet'',
          \<lparr>d_db = None, d_target = None,
           d_variables = Some [(''ORG'', JStr ''w'')],
           d_tables = Some [(''Party'', JObj [(''rows'', JArr [JObj [(''name'', JStr ''${ORG}'')]])])],
           d_operations = None\<rparr>)]\<rparr>"

text \<open>
  A second example with loosely typed tables: a table with an \<open>upsertBy\<close> that is a string
  and is not used, a table that is an array, and a table with a row; and two entries of
  \<open>databases\<close>, the one of the example seed and one with its own value for \<open>ORG\<close>, its own
  database and its own target.
\<close>

definition example_loose :: SeedYaml where
  "example_loose =
     \<lparr>y_variables = None,
      y_tables = Some
        [(''A'', JObj [(''action'', JStr ''insert''), (''upsertBy'', JStr ''id''),
                      (''rows'', JArr [JObj [(''id'', JNum (Finite False 1 1))]])]),
         (''B'', JArr []),
         (''C'', JObj [(''rows'', JArr [JObj [(''id'', JNum (Finite False 2 1))]])])],
      y_operations = None,
      y_databases = None\<rparr>"



section \<open>Reading SQL back\<close>

text \<open>
  How a SQL lexer reads a quoted token: after the opening quote, a doubled quote stands
  for one quote character and a single quote closes the token. The result is the content
  of the token and the text that follows it, or nothing when the token is not closed.
\<close>

fun scan_body :: "char \<Rightarrow> string \<Rightarrow> (string \<times> string) option" where
  "scan_body q [] = None"
| "scan_body q (c # r) =
     (if c = q then
        (case r of
           [] \<Rightarrow> Some ([], [])
         | d # r' \<Rightarrow>
             if d = q then map_option (\<lambda>(b, t). (q # b, t)) (scan_body q r')
             else Some ([], r))
      else map_option (\<lambda>(b, t). (c # b, t)) (scan_body q r))"

definition scan_quoted :: "char \<Rightarrow> string \<Rightarrow> (string \<times> string) option" where
  "scan_quoted q s = (case s of [] \<Rightarrow> None | c # r \<Rightarrow> if c = q then scan_body q r else None)"

text \<open>
  A rendered value has no unescaped single quote when it is bare text without any quote,
  or one complete string literal followed by text without any quote (the cast).
\<close>

definition sql_value_ok :: "string \<Rightarrow> bool" where
  "sql_value_ok out =
     (case scan_quoted squote out of
        Some (body, rest) \<Rightarrow> squote \<notin> set rest
      | None \<Rightarrow> squote \<notin> set out)"

section \<open>Properties of the SQL builders\<close>

lemma digit_char_in: "digit_char d \<in> set ''0123456789''"
  unfolding digit_char_def by (rule nth_mem) simp

lemma digits_set: "set (digits n) \<subseteq> set ''0123456789''"
proof (induction n rule: digits.induct)
  case (1 n)
  show ?case
  proof (cases "n < 10")
    case True
    then show ?thesis using digit_char_in[of n] by (subst digits.simps) simp
  next
    case False
    then show ?thesis using 1 digit_char_in[of n] by (subst digits.simps) simp
  qed
qed

lemma scan_body_escaped:
  "(rest = [] \<or> hd rest \<noteq> q) \<Longrightarrow>
   scan_body q (replace_char q [q, q] s @ q # rest) = Some (s, rest)"
proof (induction s)
  case Nil
  then show ?case by (cases rest) (auto simp: replace_char_def)
next
  case (Cons c s)
  then show ?case by (cases "c = q") (auto simp: replace_char_def)
qed

lemma scan_quoted_sql_quote:
  "(rest = [] \<or> hd rest \<noteq> squote) \<Longrightarrow>
   scan_quoted squote (sql_quote s @ rest) = Some (s, rest)"
  by (simp add: scan_quoted_def sql_quote_def scan_body_escaped)

lemma scan_quoted_ident: "scan_quoted dquote (quoteIdentifier s) = Some (s, [])"
  using scan_body_escaped[of "[]" dquote s] by (simp add: scan_quoted_def quoteIdentifier_def)

lemma squote_digits: "squote \<notin> set (digits n)"
  using digits_set[of n] by (auto simp: squote_def)

lemma squote_show_int: "squote \<notin> set (show_int i)"
  by (simp add: show_int_def squote_digits) (simp add: squote_def)

lemma squote_finite_str: "squote \<notin> set (finite_str neg s n)"
proof -
  have a: "squote \<notin> set (take m (digits k))" for m k
    using squote_digits[of k] by (meson in_set_takeD)
  have b: "squote \<notin> set (drop m (digits k))" for m k
    using squote_digits[of k] by (meson in_set_dropD)
  have c: "squote \<noteq> CHR ''0''" "squote \<noteq> CHR ''.''" "squote \<noteq> CHR ''e''"
    "squote \<noteq> CHR ''-''" "squote \<noteq> CHR ''+''"
    by (simp_all add: squote_def)
  show ?thesis
    unfolding finite_str_def Let_def
    using a b c squote_digits by (auto split: if_splits)
qed

lemma squote_num_str: "squote \<notin> set (num_str x)"
  by (cases x) (simp_all add: squote_finite_str, simp_all add: squote_def)

lemma value_ok_bare: "squote \<notin> set out \<Longrightarrow> sql_value_ok out"
  by (cases out) (auto simp: sql_value_ok_def scan_quoted_def)

lemma value_ok_quoted: "sql_value_ok (sql_quote s)"
  using scan_quoted_sql_quote[of "[]" s] by (simp add: sql_value_ok_def)

lemma value_ok_jsonb: "sql_value_ok (sql_quote s @ ''::jsonb'')"
  using scan_quoted_sql_quote[of "''::jsonb''" s] by (simp add: sql_value_ok_def squote_def)

lemma toSqlValue_ok:
  assumes "sql_hatch v = None" and "toSqlValue v = Inr out"
  shows "sql_value_ok out"
proof (cases v)
  case JUndefined
  with assms show ?thesis by (auto intro!: value_ok_bare simp: squote_def)
next
  case JNull
  with assms show ?thesis by (auto intro!: value_ok_bare simp: squote_def)
next
  case (JBool b)
  with assms show ?thesis by (cases b) (auto intro!: value_ok_bare simp: squote_def)
next
  case (JNum x)
  with assms show ?thesis by (auto split: if_splits intro: value_ok_bare simp: squote_num_str)
next
  case (JBigInt i)
  with assms show ?thesis by (auto intro: value_ok_bare simp: squote_show_int)
next
  case (JStr s)
  with assms show ?thesis by (auto simp: value_ok_quoted)
next
  case (JDate d)
  with assms show ?thesis by (cases d) (auto simp: value_ok_quoted)
next
  case (JArr xs)
  with assms show ?thesis by (auto split: sum.splits option.splits simp: value_ok_jsonb)
next
  case (JObj ps)
  with assms show ?thesis by (auto split: sum.splits option.splits simp: value_ok_jsonb)
next
  case (JFun name len)
  with assms show ?thesis by (auto simp: value_ok_quoted simp del: js_string.simps)
qed

lemma toSqlValue_fails:
  "(\<exists>out. toSqlValue v = Inr out) \<or> (\<exists>x. v = JNum x \<and> \<not> isFinite x) \<or> v = JDate InvalidDate
     \<or> (\<exists>e. json_text v = Inl e)"
proof (cases v)
  case (JDate d)
  then show ?thesis by (cases d) auto
next
  case (JArr xs)
  then show ?thesis by (auto split: sum.splits option.splits)
next
  case (JObj ps)
  then show ?thesis by (auto split: sum.splits option.splits)
qed auto

lemma toSqlValue_object:
  "sql_hatch (JObj ps) = None \<Longrightarrow> json_text (JObj ps) = Inr (Some json) \<Longrightarrow>
   toSqlValue (JObj ps) = Inr (sql_quote json @ ''::jsonb'')"
  by simp

lemma toSqlValue_array:
  "json_text (JArr xs) = Inr (Some json) \<Longrightarrow>
   toSqlValue (JArr xs) = Inr (sql_quote json @ ''::jsonb'')"
  by simp

text \<open>
  C8. Every value other than the \<open>{sql: ...}\<close> escape hatch that \<open>toSqlValue\<close> renders
  is rendered without an unescaped single quote: a string, the ISO text of a date and the
  JSON text of an object or array are put between single quotes with every single quote
  doubled, so that a SQL lexer reads the literal back as exactly the original text (with
  the \<open>::jsonb\<close> cast left over for JSON); null and undefined give \<open>NULL\<close>; finite numbers
  and bigints are printed bare; booleans give \<open>TRUE\<close> and \<open>FALSE\<close>; a function is
  rendered like the string of its text; a number that is not finite raises an error. The only other values that are not rendered are an invalid Date
  and a value that \<open>JSON.stringify\<close> rejects. \<open>quoteIdentifier\<close> doubles every double
  quote, so that the delimited identifier reads back as the original name.
\<close>

theorem toSqlValue_quoting:
  "(sql_hatch v = None \<longrightarrow> toSqlValue v = Inr out \<longrightarrow> sql_value_ok out) \<and>
   ((\<exists>r. toSqlValue v = Inr r) \<or> (\<exists>z. v = JNum z \<and> \<not> isFinite z) \<or> v = JDate InvalidDate
      \<or> (\<exists>e. json_text v = Inl e)) \<and>
   toSqlValue (JStr s) = Inr (sql_quote s) \<and>
   toSqlValue (JDate (ValidDate isoText localText)) = Inr (sql_quote isoText) \<and>
   (sql_hatch (JObj ps) = None \<longrightarrow> json_text (JObj ps) = Inr (Some json) \<longrightarrow>
      toSqlValue (JObj ps) = Inr (sql_quote json @ ''::jsonb'')) \<and>
   (json_text (JArr xs) = Inr (Some json') \<longrightarrow>
      toSqlValue (JArr xs) = Inr (sql_quote json' @ ''::jsonb'')) \<and>
   sql_quote s = [squote] @ replace_char squote [squote, squote] s @ [squote] \<and>
   scan_quoted squote (sql_quote s) = Some (s, []) \<and>
   scan_quoted squote (sql_quote s @ ''::jsonb'') = Some (s, ''::jsonb'') \<and>
   toSqlValue JNull = Inr ''NULL'' \<and>
   toSqlValue JUndefined = Inr ''NULL'' \<and>
   (isFinite x \<longrightarrow> toSqlValue (JNum x) = Inr (num_str x)) \<and>
   (\<not> isFinite y \<longrightarrow> toSqlValue (JNum y) = Inl (Error ''Invalid number value in seed YAML.'')) \<and>
   toSqlValue (JBigInt i) = Inr (show_int i) \<and>
   toSqlValue (JBool True) = Inr ''TRUE'' \<and>
   toSqlValue (JBool False) = Inr ''FALSE'' \<and>
   toSqlValue (JFun name len) = Inr (sql_quote (js_string (JFun name len))) \<and>
   quoteIdentifier ident = [dquote] @ replace_char dquote [dquote, dquote] ident @ [dquote] \<and>
   scan_quoted dquote (quoteIdentifier ident) = Some (ident, [])"
proof -
  have a: "scan_quoted squote (sql_quote s) = Some (s, [])"
    using scan_quoted_sql_quote[of "[]" s] by simp
  have b: "scan_quoted squote (sql_quote s @ ''::jsonb'') = Some (s, ''::jsonb'')"
    using scan_quoted_sql_quote[of "''::jsonb''" s] by (simp add: squote_def)
  show ?thesis
    using toSqlValue_ok[of v out] toSqlValue_fails[of v] toSqlValue_object[of ps json]
      toSqlValue_array[of xs json'] a b scan_quoted_ident[of ident]
    by (simp add: sql_quote_def quoteIdentifier_def del: js_string.simps)
qed

theorem toSqlValue_quoting_witness:
  "sql_hatch (JStr [CHR ''O'', squote, CHR ''B'']) = None \<and>
   toSqlValue (JStr [CHR ''O'', squote, CHR ''B'']) = Inr [squote, CHR ''O'', squote, squote, CHR ''B'', squote] \<and>
   sql_value_ok [squote, CHR ''O'', squote, squote, CHR ''B'', squote] \<and>
   sql_hatch (JObj [(''k'', JStr [squote])]) = None \<and>
   json_text (JObj [(''k'', JStr [squote])]) = Inr (Some (''{'' @ json_quote ''k'' @ '':'' @ json_quote [squote] @ ''}'')) \<and>
   toSqlValue (JObj [(''k'', JStr [squote])]) =
     Inr (sql_quote (''{'' @ json_quote ''k'' @ '':'' @ json_quote [squote] @ ''}'') @ ''::jsonb'') \<and>
   json_text (JArr [JNull]) = Inr (Some ''[null]'') \<and>
   toSqlValue (JArr [JNull]) = Inr (sql_quote ''[null]'' @ ''::jsonb'') \<and>
   isFinite (Finite False 42 2) \<and>
   toSqlValue (JNum (Finite False 42 2)) = Inr ''42'' \<and>
   \<not> isFinite NaN \<and>
   toSqlValue (JNum NaN) = Inl (Error ''Invalid number value in seed YAML.'')"
  using toSqlValue_quoting[where v = "JStr [CHR ''O'', squote, CHR ''B'']"
      and out = "[squote, CHR ''O'', squote, squote, CHR ''B'', squote]"
      and ps = "[(''k'', JStr [squote])]"
      and json = "''{'' @ json_quote ''k'' @ '':'' @ json_quote [squote] @ ''}''"
      and xs = "[JNull]" and json' = "''[null]''"
      and x = "Finite False 42 2" and y = NaN and s = "''a''" and isoText = "''b''"
      and localText = "''c''" and i = "7" and ident = "''id''"]
  by (simp add: sql_quote_def replace_char_def finite_str_def digits.simps digit_char_def
      squote_def)

lemma get_prop_distinct:
  "distinct (map fst row) \<Longrightarrow> p \<in> set row \<Longrightarrow> get_prop row (fst p) = snd p"
  by (cases p) (simp add: get_prop_def)

lemma values_by_position:
  "distinct (map fst row) \<Longrightarrow>
   map (\<lambda>col. toSqlValue (get_prop row col)) (map fst row) = map (\<lambda>p. toSqlValue (snd p)) row"
  unfolding map_map by (rule map_cong) (simp_all add: get_prop_distinct)

text \<open>
  C1, as stated, promises an INSERT statement for every row with at least one column.
  A row whose only column holds a number that is not finite has one column, and
  \<open>buildInsertSql\<close> raises the error of \<open>toSqlValue\<close> instead.
\<close>

theorem buildInsertSql_counterexample:
  "length [(''a'', JNum NaN)] = 1 \<and>
   buildInsertSql ''t'' [(''a'', JNum NaN)] None =
     Inl (Error ''Invalid number value in seed YAML.'')"
  by (simp add: buildInsertSql_def get_prop_def)

text \<open>
  C1, amended. For every table name and every row with at least one column all of whose
  values \<open>toSqlValue\<close> renders, \<open>buildInsertSql\<close> produces an INSERT statement whose column
  list is the row's keys, quoted, in order, and whose value list is the rendered values in
  the same order. With \<open>upsertBy\<close> absent or empty the statement ends there; with a
  non-empty \<open>upsertBy\<close> it continues with ON CONFLICT over exactly the \<open>upsertBy\<close> columns,
  and then DO NOTHING when every column of the row is an upsert key, or DO UPDATE SET
  \<open>col = EXCLUDED.col\<close> for every column that is not in \<open>upsertBy\<close>, in order. A row with
  no column raises an error, and so does a row with a value that \<open>toSqlValue\<close> rejects.
\<close>

theorem buildInsertSql_shape:
  "buildInsertSql table [] upsertBy =
     Inl (Error (''Seed row for table '' @ [dquote] @ table @ [dquote] @ '' has no columns.'')) \<and>
   (row \<noteq> [] \<longrightarrow> distinct (map fst row) \<longrightarrow>
    collect (map (\<lambda>p. toSqlValue (snd p)) row) = Inl e \<longrightarrow>
      buildInsertSql table row upsertBy = Inl e) \<and>
   (row \<noteq> [] \<longrightarrow> distinct (map fst row) \<longrightarrow>
    collect (map (\<lambda>p. toSqlValue (snd p)) row) = Inr vals \<longrightarrow>
    (\<exists>insert.
      insert = ''INSERT INTO '' @ quoteIdentifier table @
               '' ('' @ join '', '' (map quoteIdentifier (map fst row)) @
               '') VALUES ('' @ join '', '' vals @ '')'' \<and>
      buildInsertSql table row None = Inr (insert @ '';'') \<and>
      buildInsertSql table row (Some []) = Inr (insert @ '';'') \<and>
      (ub \<noteq> [] \<longrightarrow> set (map fst row) \<subseteq> set ub \<longrightarrow>
         buildInsertSql table row (Some ub) =
           Inr (insert @ '' ON CONFLICT ('' @ join '', '' (map quoteIdentifier ub) @
                '') DO NOTHING;'')) \<and>
      (ub \<noteq> [] \<longrightarrow> \<not> set (map fst row) \<subseteq> set ub \<longrightarrow>
         buildInsertSql table row (Some ub) =
           Inr (insert @ '' ON CONFLICT ('' @ join '', '' (map quoteIdentifier ub) @
                '') DO UPDATE SET '' @
                join '', ''
                  (map (\<lambda>col. quoteIdentifier col @ '' = EXCLUDED.'' @ quoteIdentifier col)
                     (filter (\<lambda>col. col \<notin> set ub) (map fst row))) @ '';''))))"
proof (intro conjI impI)
  show "buildInsertSql table [] upsertBy =
     Inl (Error (''Seed row for table '' @ [dquote] @ table @ [dquote] @ '' has no columns.''))"
    by (simp add: buildInsertSql_def)
next
  assume cols: "row \<noteq> []" and keys: "distinct (map fst row)"
    and bad: "collect (map (\<lambda>p. toSqlValue (snd p)) row) = Inl e"
  define cs where "cs = map fst row"
  have ne: "cs \<noteq> []"
    using cols by (simp add: cs_def)
  have v: "collect (map (\<lambda>col. toSqlValue (get_prop row col)) cs) = Inl e"
    unfolding cs_def by (simp only: values_by_position[OF keys] bad)
  show "buildInsertSql table row upsertBy = Inl e"
    unfolding buildInsertSql_def Let_def cs_def[symmetric]
    using ne v by simp
next
  assume cols: "row \<noteq> []" and keys: "distinct (map fst row)"
    and vals: "collect (map (\<lambda>p. toSqlValue (snd p)) row) = Inr vals"
  define cs where "cs = map fst row"
  have ne: "cs \<noteq> []"
    using cols by (simp add: cs_def)
  have v: "collect (map (\<lambda>col. toSqlValue (get_prop row col)) cs) = Inr vals"
    unfolding cs_def by (simp only: values_by_position[OF keys] vals)
  have f: "(filter (\<lambda>col. col \<notin> set ub) cs = []) = (set cs \<subseteq> set ub)"
    by (auto simp: filter_empty_conv)
  show "\<exists>insert.
      insert = ''INSERT INTO '' @ quoteIdentifier table @
               '' ('' @ join '', '' (map quoteIdentifier (map fst row)) @
               '') VALUES ('' @ join '', '' vals @ '')'' \<and>
      buildInsertSql table row None = Inr (insert @ '';'') \<and>
      buildInsertSql table row (Some []) = Inr (insert @ '';'') \<and>
      (ub \<noteq> [] \<longrightarrow> set (map fst row) \<subseteq> set ub \<longrightarrow>
         buildInsertSql table row (Some ub) =
           Inr (insert @ '' ON CONFLICT ('' @ join '', '' (map quoteIdentifier ub) @
                '') DO NOTHING;'')) \<and>
      (ub \<noteq> [] \<longrightarrow> \<not> set (map fst row) \<subseteq> set ub \<longrightarrow>
         buildInsertSql table row (Some ub) =
           Inr (insert @ '' ON CONFLICT ('' @ join '', '' (map quoteIdentifier ub) @
                '') DO UPDATE SET '' @
                join '', ''
                  (map (\<lambda>col. quoteIdentifier col @ '' = EXCLUDED.'' @ quoteIdentifier col)
                     (filter (\<lambda>col. col \<notin> set ub) (map fst row))) @ '';''))"
    unfolding buildInsertSql_def Let_def cs_def[symmetric]
    using ne v f by simp
qed

theorem buildInsertSql_shape_witness:
  "[(''id'', JNum (Finite False 1 1)), (''name'', JStr ''n'')] \<noteq> [] \<and>
   distinct (map fst [(''id'', JNum (Finite False 1 1)), (''name'', JStr ''n'')]) \<and>
   collect (map (\<lambda>p. toSqlValue (snd p)) [(''id'', JNum (Finite False 1 1)), (''name'', JStr ''n'')])
     = Inr [''1'', sql_quote ''n''] \<and>
   buildInsertSql ''t'' [(''id'', JNum (Finite False 1 1)), (''name'', JStr ''n'')] None =
     Inr (''INSERT INTO '' @ quoteIdentifier ''t'' @ '' ('' @ quoteIdentifier ''id'' @ '', '' @
          quoteIdentifier ''name'' @ '') VALUES (1, '' @ sql_quote ''n'' @ '');'') \<and>
   [''id''] \<noteq> [] \<and>
   \<not> set (map fst [(''id'', JNum (Finite False 1 1)), (''name'', JStr ''n'')]) \<subseteq> set [''id''] \<and>
   buildInsertSql ''t'' [(''id'', JNum (Finite False 1 1)), (''name'', JStr ''n'')] (Some [''id'']) =
     Inr (''INSERT INTO '' @ quoteIdentifier ''t'' @ '' ('' @ quoteIdentifier ''id'' @ '', '' @
          quoteIdentifier ''name'' @ '') VALUES (1, '' @ sql_quote ''n'' @
          '') ON CONFLICT ('' @ quoteIdentifier ''id'' @ '') DO UPDATE SET '' @
          quoteIdentifier ''name'' @ '' = EXCLUDED.'' @ quoteIdentifier ''name'' @ '';'') \<and>
   set (map fst [(''id'', JNum (Finite False 1 1)), (''name'', JStr ''n'')]) \<subseteq> set [''name'', ''id''] \<and>
   buildInsertSql ''t'' [(''id'', JNum (Finite False 1 1)), (''name'', JStr ''n'')]
       (Some [''name'', ''id'']) =
     Inr (''INSERT INTO '' @ quoteIdentifier ''t'' @ '' ('' @ quoteIdentifier ''id'' @ '', '' @
          quoteIdentifier ''name'' @ '') VALUES (1, '' @ sql_quote ''n'' @
          '') ON CONFLICT ('' @ quoteIdentifier ''name'' @ '', '' @ quoteIdentifier ''id'' @
          '') DO NOTHING;'') \<and>
   collect (map (\<lambda>p. toSqlValue (snd p)) [(''a'', JNum PosInfinity)]) =
     Inl (Error ''Invalid number value in seed YAML.'') \<and>
   buildInsertSql ''t'' [(''a'', JNum PosInfinity)] (Some [''a'']) =
     Inl (Error ''Invalid number value in seed YAML.'')"
  using
    buildInsertSql_shape[where table = "''t''" and upsertBy = None
      and row = "[(''id'', JNum (Finite False 1 1)), (''name'', JStr ''n'')]"
      and vals = "[''1'', sql_quote ''n'']" and ub = "[''id'']"
      and e = "Error ''x''"]
    buildInsertSql_shape[where table = "''t''" and upsertBy = None
      and row = "[(''id'', JNum (Finite False 1 1)), (''name'', JStr ''n'')]"
      and vals = "[''1'', sql_quote ''n'']" and ub = "[''name'', ''id'']"
      and e = "Error ''x''"]
    buildInsertSql_shape[where table = "''t''" and upsertBy = "Some [''a'']"
      and row = "[(''a'', JNum PosInfinity)]"
      and vals = "[]" and ub = "[''a'']"
      and e = "Error ''Invalid number value in seed YAML.''"]
  by (simp add: finite_str_def digits.simps digit_char_def)

text \<open>On a table name that is a string and an \<open>upsertBy\<close> that is a list of strings, the
  builder of the interpreter is \<open>buildInsertSql\<close>.\<close>

lemma strip_zeros_zero: "(strip_zeros n = 0) = (n = 0)"
proof (induction n rule: strip_zeros.induct)
  case (1 n)
  then show ?case
    by (subst strip_zeros.simps) auto
qed

lemma quote_string: "quoteIdentifierDyn (JStr s) = Inr (quoteIdentifier s)"
  by (simp add: quoteIdentifierDyn_def)

lemma quote_strings: "collect (map quoteIdentifierDyn (map JStr ub)) = Inr (map quoteIdentifier ub)"
  by (induction ub) (simp_all add: quote_string del: map_map)

lemma buildInsertSqlDyn_typed:
  "buildInsertSqlDyn (JStr table) row (JArr (map JStr ub)) = buildInsertSql table row (Some ub)"
proof -
  have z: "is_zero (js_get (JArr (map JStr ub)) ''length'') = (length ub = 0)"
    by (simp add: js_get_def num_of_nat_def strip_zeros_zero)
  have f: "filter (\<lambda>col. JStr col \<notin> set (map JStr ub)) cs = filter (\<lambda>col. col \<notin> set ub) cs" for cs
    by (rule filter_cong) auto
  have t: "truthy (JArr (map JStr ub))"
    by simp
  have s: "js_string (JStr table) = table"
    by simp
  show ?thesis
    unfolding buildInsertSqlDyn_def buildInsertSql_def Let_def z f quote_strings quote_string
      jsval.case sum.case option.case s
    using t by (cases "collect (map (\<lambda>col. toSqlValue (get_prop row col)) (map fst row))")
      (simp_all only: simp_thms if_True if_False sum.case)
qed

section \<open>Properties of the seed interpreter\<close>

text \<open>
  C2. An embedded placeholder is to be replaced by the \<open>String()\<close> rendering of the
  variable's value. The code replaces the \<open>{{ vars.KEY }}\<close> placeholders first and then
  scans the result for \<open>${KEY}\<close> placeholders, so that a value put in by the first pass is
  itself interpolated by the second: with \<open>a = "${b}"\<close> and \<open>b = "B"\<close> the text
  \<open>v={{vars.a}}\<close> becomes \<open>v=B\<close> and not \<open>v=${b}\<close>, although the value of \<open>a\<close> is the text
  \<open>${b}\<close>, which is also what the exact placeholder \<open>{{vars.a}}\<close> alone gives.
\<close>

theorem applySeedVariables_second_pass:
  "resolveVarByPath [(''a'', JStr ''${b}''), (''b'', JStr ''B'')] ''a'' = JStr ''${b}'' \<and>
   js_string (JStr ''${b}'') = ''${b}'' \<and>
   applySeedVariables (JStr ''v={{vars.a}}'') [(''a'', JStr ''${b}''), (''b'', JStr ''B'')]
     = JStr ''v=B'' \<and>
   applySeedVariables (JStr ''{{vars.a}}'') [(''a'', JStr ''${b}''), (''b'', JStr ''B'')]
     = JStr ''${b}''"
  by code_simp

theorem applySeedVariables_second_pass_witness:
  "applySeedVariables (JStr ''v={{vars.a}}'') [(''a'', JStr ''${b}''), (''b'', JStr ''B'')]
     \<noteq> JStr (''v='' @ js_string (resolveVarByPath [(''a'', JStr ''${b}''), (''b'', JStr ''B'')] ''a''))"
  using applySeedVariables_second_pass by simp

text \<open>
  C4. A reference whose filter holds \<open>null\<close> is to be looked up with an \<open>IS NULL\<close>
  predicate, as \<open>buildWhereSql\<close> does for the filters of operations. \<open>resolveSeedRef\<close>
  builds its own predicates and writes \<open>= NULL\<close>, a comparison that no row satisfies.
\<close>

theorem resolveSeedRef_null_filter:
  "fst (resolveSeedRef W
          \<lparr>rt_mode = Compose, rt_service = ''postgres'', rt_user = ''postgres'',
           rt_password = None, rt_host = None, rt_port = None, rt_adminDb = ''postgres'',
           rt_composeDir = ''.'', rt_ssl = None\<rparr>
          ''wallet''
          (JObj [(''table'', JStr ''Party''), (''where'', JObj [(''orgId'', JNull)])]) [])
     = [PsqlCapture
          \<lparr>rt_mode = Compose, rt_service = ''postgres'', rt_user = ''postgres'',
           rt_password = None, rt_host = None, rt_port = None, rt_adminDb = ''postgres'',
           rt_composeDir = ''.'', rt_ssl = None\<rparr>
          ''wallet''
          (''SELECT '' @ quoteIdentifier ''id'' @ '' FROM '' @ quoteIdentifier ''Party'' @
           '' WHERE '' @ quoteIdentifier ''orgId'' @ '' = NULL LIMIT 1;'')] \<and>
   buildWhereSql ''Party'' [(''orgId'', JNull)] = Inr (quoteIdentifier ''orgId'' @ '' IS NULL'')"
proof -
  have column: "js_get (JObj [(''table'', JStr ''Party''), (''where'', JObj [(''orgId'', JNull)])])
                  ''column'' = JUndefined"
    by code_simp
  have table: "js_get (JObj [(''table'', JStr ''Party''), (''where'', JObj [(''orgId'', JNull)])])
                 ''table'' = JStr ''Party''"
    by code_simp
  have filter: "js_get (JObj [(''table'', JStr ''Party''), (''where'', JObj [(''orgId'', JNull)])])
                  ''where'' = JObj [(''orgId'', JNull)]"
    by code_simp
  show ?thesis
    by (simp add: resolveSeedRef_def runPsqlWithRuntimeCapture_def buildWhereSql_def
        quoteIdentifierDyn_def column table filter Let_def split: prod.splits sum.splits)
qed

theorem resolveSeedRef_null_filter_witness:
  "buildWhereSql ''Party'' [(''orgId'', JNull)] \<noteq> Inr (quoteIdentifier ''orgId'' @ '' = NULL'')"
  using resolveSeedRef_null_filter[of "\<lambda>h e. Inr []"] by (simp add: quoteIdentifier_def)

section \<open>Properties of api-virtual\<close>

text \<open>
  C6. A placeholder \<open>{{ path }}\<close> is to be replaced by the value at \<open>path\<close> in the request
  context. The pattern allows white space on both sides of the token, but the token class
  \<open>[^}]+\<close> takes the white space before the closing braces into the token: for
  \<open>{{ params.id }}\<close> the path is \<open>params\<close>, \<open>id \<close> (with the blank), which is not a key
  of the parameters, and the placeholder is replaced by the empty string. The same
  placeholder without the blank before the closing braces gives the value.
\<close>

theorem interpolateString_trailing_blank:
  "match_template ''{{ params.id }}'' = Some (''params.id '', []) \<and>
   interpolateString ''id={{ params.id }}'' [(''params'', JObj [(''id'', JStr ''42'')])] = ''id='' \<and>
   interpolateString ''id={{ params.id}}'' [(''params'', JObj [(''id'', JStr ''42'')])] = ''id=42'' \<and>
   interpolateString ''id={{params.id}}'' [(''params'', JObj [(''id'', JStr ''42'')])] = ''id=42'' \<and>
   applyTemplate (JObj [(''id'', JStr ''{{ params.id }}'')]) [(''params'', JObj [(''id'', JStr ''42'')])]
     = JObj [(''id'', JStr [])]"
  by code_simp

theorem interpolateString_trailing_blank_witness:
  "interpolateString ''id={{ params.id }}'' [(''params'', JObj [(''id'', JStr ''42'')])] \<noteq> ''id=42''"
  using interpolateString_trailing_blank by simp

section \<open>Properties of the bulk payload\<close>







lemma set_join: "set (join sep ss) \<subseteq> set sep \<union> \<Union> (set ` set ss)"
  by (induction sep ss rule: join.induct) auto

lemma newline_join:
  "newline \<notin> set sep \<Longrightarrow> \<forall>s \<in> set ss. newline \<notin> set s \<Longrightarrow> newline \<notin> set (join sep ss)"
  using set_join[of sep ss] by auto



































section \<open>Properties of the reset command\<close>

lemma finite_kids: "finite (kids parties ds p)"
  by (simp add: kids_def)

lemma order_snoc:
  assumes "\<forall>pre p post. t = pre @ p # post \<longrightarrow> K p \<subseteq> set pre"
    and "K x \<subseteq> set t"
  shows "\<forall>pre p post. t @ [x] = pre @ p # post \<longrightarrow> K p \<subseteq> set pre"
proof (intro allI impI)
  fix pre p post
  assume e: "t @ [x] = pre @ p # post"
  show "K p \<subseteq> set pre"
  proof (cases post rule: rev_cases)
    case Nil
    with e have "t = pre" "x = p" by auto
    with assms(2) show ?thesis by simp
  next
    case (snoc post' y)
    with e have "t = pre @ p # post'" by auto
    with assms(1) show ?thesis by blast
  qed
qed

lemma inv_skip:
  assumes "reset_inv parties ds st" and "queue st = x # rest"
  shows "reset_inv parties ds (st\<lparr>queue := rest\<rparr>)"
  using assms by (auto simp: reset_inv_def)

lemma inv_result:
  assumes "reset_inv parties ds st"
  shows "leaves_first parties ds (submitted st)"
  using assms by (auto simp: reset_inv_def leaves_first_def)

lemma inv_submit:
  assumes "reset_inv parties ds st" and "queue st = x # rest"
  shows "leaves_first parties ds (submitted st @ [x]) \<or> x \<in> processed st"
proof (cases "x \<in> processed st")
  case True
  then show ?thesis by simp
next
  case False
  have k: "kids parties ds x \<subseteq> set (submitted st)"
    using assms by (auto simp: reset_inv_def)
  have o: "\<forall>pre p post. submitted st = pre @ p # post \<longrightarrow> kids parties ds p \<subseteq> set pre"
    using assms(1) by (simp add: reset_inv_def)
  have "\<forall>pre p post. submitted st @ [x] = pre @ p # post \<longrightarrow> kids parties ds p \<subseteq> set pre"
    by (rule order_snoc[OF o k])
  moreover have "distinct (submitted st @ [x])"
    using assms(1) False by (auto simp: reset_inv_def)
  moreover have "set (submitted st @ [x]) \<subseteq> set ds"
    using assms by (auto simp: reset_inv_def)
  ultimately show ?thesis by (simp add: leaves_first_def)
qed

lemma card_shrink:
  assumes "finite A"
  shows "int (card (A - insert x P)) \<le> int (card (A - P))"
proof -
  have "card (A - insert x P) \<le> card (A - P)"
    by (rule card_mono) (use assms in auto)
  then show ?thesis by simp
qed

lemma card_remove_one:
  assumes "finite A" and "x \<in> A" and "x \<notin> P"
  shows "int (card (A - insert x P)) = int (card (A - P)) - 1"
proof -
  have e: "A - insert x P = (A - P) - {x}" by auto
  have "card (A - P) = Suc (card ((A - P) - {x}))"
    by (rule card.remove) (use assms in auto)
  then show ?thesis unfolding e by simp
qed

lemma inv_delete_plain:
  assumes inv: "reset_inv parties ds st" and q: "queue st = x # rest"
    and new: "x \<notin> processed st"
  shows "reset_inv parties ds
           (st\<lparr>queue := rest, processed := insert x (processed st),
               submitted := submitted st @ [x]\<rparr>)"
proof -
  from inv_submit[OF inv q] new
  have lf: "leaves_first parties ds (submitted st @ [x])" by simp
  have c: "\<forall>p \<in> set ds. \<exists>n. childCount st p = Some n \<and>
              int (card (kids parties ds p - insert x (processed st))) \<le> n"
  proof
    fix p assume "p \<in> set ds"
    with inv obtain n where n: "childCount st p = Some n"
      "int (card (kids parties ds p - processed st)) \<le> n"
      by (auto simp: reset_inv_def)
    with card_shrink[OF finite_kids, of parties ds p x "processed st"]
    show "\<exists>n. childCount st p = Some n \<and>
              int (card (kids parties ds p - insert x (processed st))) \<le> n"
      by auto
  qed
  have "x \<in> set ds" using inv q by (auto simp: reset_inv_def)
  then show ?thesis
    using inv q lf c by (auto simp: reset_inv_def leaves_first_def)
qed

lemma inv_delete_parent:
  assumes inv: "reset_inv parties ds st" and q: "queue st = x # rest"
    and new: "x \<notin> processed st"
    and party: "party \<in> set parties" "party_id party = x" "parent_of party = Some org"
    and org: "org \<in> set ds"
    and rem: "remaining = (case childCount st org of None \<Rightarrow> 0 | Some n \<Rightarrow> n) - 1"
  shows "reset_inv parties ds
           (st\<lparr>queue := (if remaining \<le> 0 then org # rest else rest),
               processed := insert x (processed st),
               childCount := (childCount st)(org \<mapsto> max remaining 0),
               submitted := submitted st @ [x]\<rparr>)"
proof -
  from inv_submit[OF inv q] new
  have lf: "leaves_first parties ds (submitted st @ [x])" by simp
  have xd: "x \<in> set ds" using inv q by (auto simp: reset_inv_def)
  have xk: "x \<in> kids parties ds org"
    using party xd by (auto simp: kids_def)
  from inv org obtain n where n: "childCount st org = Some n"
    "int (card (kids parties ds org - processed st)) \<le> n"
    by (auto simp: reset_inv_def)
  have r: "remaining = n - 1" using rem n by simp
  have one: "int (card (kids parties ds org - insert x (processed st))) =
             int (card (kids parties ds org - processed st)) - 1"
    by (rule card_remove_one[OF finite_kids xk new])
  have c: "\<forall>p \<in> set ds. \<exists>m. ((childCount st)(org \<mapsto> max remaining 0)) p = Some m \<and>
              int (card (kids parties ds p - insert x (processed st))) \<le> m"
  proof
    fix p assume p: "p \<in> set ds"
    show "\<exists>m. ((childCount st)(org \<mapsto> max remaining 0)) p = Some m \<and>
              int (card (kids parties ds p - insert x (processed st))) \<le> m"
    proof (cases "p = org")
      case True
      then show ?thesis using one n r by auto
    next
      case False
      from inv p obtain m where m: "childCount st p = Some m"
        "int (card (kids parties ds p - processed st)) \<le> m"
        by (auto simp: reset_inv_def)
      with card_shrink[OF finite_kids, of parties ds p x "processed st"] False
      show ?thesis by auto
    qed
  qed
  have k: "remaining \<le> 0 \<Longrightarrow> kids parties ds org \<subseteq> insert x (processed st)"
  proof -
    assume "remaining \<le> 0"
    with r n one have "int (card (kids parties ds org - insert x (processed st))) \<le> 0"
      by simp
    then have "kids parties ds org - insert x (processed st) = {}"
      using finite_kids[of parties ds org] by simp
    then show ?thesis by blast
  qed
  show ?thesis
    using inv q lf c k xd org by (auto simp: reset_inv_def leaves_first_def)
qed

lemma resetLoop_leaves_first:
  assumes "reset_inv parties ds st"
    and "\<forall>x \<in> set ds. byId x \<noteq> None"
    and "\<forall>x party. byId x = Some party \<longrightarrow> party \<in> set parties \<and> party_id party = x"
  shows "leaves_first parties ds (fst (resetLoop server byId ds st))"
  using assms
proof (induction server byId ds st rule: resetLoop.induct)
  case (1 server byId ds st)
  note inv = "1.prems"(1) and dom = "1.prems"(2) and ids = "1.prems"(3)
  show ?case
  proof (cases "queue st")
    case Nil
    then show ?thesis
      using inv_result[OF inv] by (subst resetLoop.simps) simp
  next
    case (Cons x rest)
    show ?thesis
    proof (cases "x \<in> processed st")
      case True
      have "leaves_first parties ds (fst (resetLoop server byId ds (st\<lparr>queue := rest\<rparr>)))"
        by (rule "1.IH"(1)[OF Cons True inv_skip[OF inv Cons] dom ids])
      then show ?thesis
        using Cons True by (subst resetLoop.simps) simp
    next
      case False
      have xd: "x \<in> set ds"
        using inv Cons by (auto simp: reset_inv_def)
      with dom obtain party where party: "byId x = Some party"
        by auto
      with ids have pm: "party \<in> set parties" and pid: "party_id party = x"
        by auto
      show ?thesis
      proof (cases "server (submitted st) (party_id party)")
        case refused: False
        have "leaves_first parties ds (submitted st @ [x])"
          using inv_submit[OF inv Cons] False by simp
        then show ?thesis
          using Cons False party refused pid by (subst resetLoop.simps) simp
      next
        case accepted: True
        then have acc: "\<not> \<not> server (submitted st) (party_id party)" by simp
        show ?thesis
        proof (cases "parent_of party")
          case None
          have i: "reset_inv parties ds
                     (st\<lparr>queue := rest, processed := insert x (processed st),
                         submitted := submitted st @ [party_id party]\<rparr>)"
            unfolding pid by (rule inv_delete_plain[OF inv Cons False])
          have "leaves_first parties ds (fst (resetLoop server byId ds
                     (st\<lparr>queue := rest, processed := insert x (processed st),
                         submitted := submitted st @ [party_id party]\<rparr>)))"
            by (rule "1.IH"(3)[OF Cons False party acc None i dom ids])
          then show ?thesis
            using Cons False party accepted None by (subst resetLoop.simps) simp
        next
          case (Some org)
          show ?thesis
          proof (cases "org \<in> set ds")
            case True
            define remaining where
              "remaining = (case childCount st org of None \<Rightarrow> 0 | Some n \<Rightarrow> n) - 1"
            have i: "reset_inv parties ds
                       (st\<lparr>queue := (if remaining \<le> 0 then org # rest else rest),
                           processed := insert x (processed st),
                           childCount := (childCount st)(org \<mapsto> max remaining 0),
                           submitted := submitted st @ [party_id party]\<rparr>)"
              unfolding pid
              by (rule inv_delete_parent[OF inv Cons False pm pid Some True remaining_def])
            have "leaves_first parties ds (fst (resetLoop server byId ds
                       (st\<lparr>queue := (if remaining \<le> 0 then org # rest else rest),
                           processed := insert x (processed st),
                           childCount := (childCount st)(org \<mapsto> max remaining 0),
                           submitted := submitted st @ [party_id party]\<rparr>)))"
              by (rule "1.IH"(4)[OF Cons False party acc Some True remaining_def i dom ids])
            then show ?thesis
              using Cons False party accepted Some True
              by (subst resetLoop.simps) (simp add: remaining_def Let_def)
          next
            case outside: False
            have i: "reset_inv parties ds
                       (st\<lparr>queue := rest, processed := insert x (processed st),
                           submitted := submitted st @ [party_id party]\<rparr>)"
              unfolding pid by (rule inv_delete_plain[OF inv Cons False])
            have "leaves_first parties ds (fst (resetLoop server byId ds
                       (st\<lparr>queue := rest, processed := insert x (processed st),
                           submitted := submitted st @ [party_id party]\<rparr>)))"
              by (rule "1.IH"(5)[OF Cons False party acc Some outside i dom ids])
            then show ?thesis
              using Cons False party accepted Some outside by (subst resetLoop.simps) simp
          qed
        qed
      qed
    qed
  qed
qed

lemma children_of_add:
  "children_of (add_child c m) p =
   children_of m p \<union> (if parent_of c = Some p then {party_id c} else {})"
  by (auto simp: children_of_def add_child_def split: option.splits)

lemma children_of_fold:
  "children_of (fold add_child ps m) p =
   children_of m p \<union> {party_id c | c. c \<in> set ps \<and> parent_of c = Some p}"
proof (induction ps arbitrary: m)
  case Nil
  show ?case by simp
next
  case (Cons c ps)
  show ?case
    unfolding fold_simps Cons children_of_add by auto
qed

lemma children_of_map:
  "children_of (childrenMap parties) p = {party_id c | c. c \<in> set parties \<and> parent_of c = Some p}"
  unfolding childrenMap_def children_of_fold by (simp add: children_of_def)

lemma count_children_eq:
  "count_children cm ds party m = m(party_id party \<mapsto> counted cm ds (party_id party))"
  by (simp add: count_children_def counted_def split: option.splits)

lemma counts_fold:
  "fold (count_children cm ds) rs m p =
   (if p \<in> party_id ` set rs then Some (counted cm ds p) else m p)"
proof (induction rs arbitrary: m)
  case Nil
  show ?case by simp
next
  case (Cons r rs)
  have "fold (count_children cm ds) (r # rs) m p =
        fold (count_children cm ds) rs (count_children cm ds r m) p"
    by simp
  also have "\<dots> = (if p \<in> party_id ` set rs then Some (counted cm ds p)
                    else (count_children cm ds r m) p)"
    by (rule Cons)
  also have "\<dots> = (if p \<in> party_id ` set (r # rs) then Some (counted cm ds p) else m p)"
    by (simp add: count_children_eq)
  finally show ?case .
qed

lemma kids_counted:
  "int (card (kids parties ds p)) \<le> counted (childrenMap parties) ds p"
proof -
  let ?cm = "childrenMap parties"
  have k: "kids parties ds p \<subseteq> {c \<in> children_of ?cm p. c \<in> set ds}"
    unfolding children_of_map by (auto simp: kids_def)
  show ?thesis
  proof (cases "?cm p")
    case None
    then have "children_of ?cm p = {}" by (simp add: children_of_def)
    with k have "kids parties ds p = {}" by auto
    then show ?thesis using None by (simp add: counted_def)
  next
    case (Some s)
    then have "children_of ?cm p = set s" by (simp add: children_of_def)
    with k have "kids parties ds p \<subseteq> set (filter (\<lambda>c. c \<in> set ds) s)" by auto
    then have "card (kids parties ds p) \<le> card (set (filter (\<lambda>c. c \<in> set ds) s))"
      by (rule card_mono[rotated]) simp
    also have "\<dots> \<le> length (filter (\<lambda>c. c \<in> set ds) s)"
      by (rule card_length)
    finally show ?thesis using Some by (simp add: counted_def)
  qed
qed

lemma kids_counted_zero:
  assumes "counted (childrenMap parties) ds p = 0"
  shows "kids parties ds p = {}"
proof -
  have "int (card (kids parties ds p)) \<le> 0"
    using kids_counted[of parties ds p] assms by simp
  then show ?thesis using finite_kids[of parties ds p] by simp
qed

lemma partyById_found:
  "partyById parties x = Some party \<Longrightarrow> party \<in> set parties \<and> party_id party = x"
  unfolding partyById_def by (auto dest!: map_of_SomeD)

lemma partyById_defined:
  "x \<in> party_id ` set parties \<Longrightarrow> partyById parties x \<noteq> None"
  unfolding partyById_def by (auto simp: map_of_eq_None_iff image_iff)

lemma initial_inv:
  assumes "ds = map party_id removable"
    and "counts = fold (count_children (childrenMap parties) ds) removable Map.empty"
    and "initial = map party_id
           (filter (\<lambda>party. (case counts (party_id party) of None \<Rightarrow> 0 | Some n \<Rightarrow> n) = 0)
              removable)"
  shows "reset_inv parties ds
           \<lparr>queue = rev initial, processed = {}, childCount = counts, submitted = []\<rparr>"
proof -
  have c: "counts p = (if p \<in> set ds then Some (counted (childrenMap parties) ds p) else None)"
    for p
    unfolding assms(2) counts_fold by (simp add: assms(1))
  have q: "set initial \<subseteq> set ds"
    unfolding assms(1,3) by auto
  have z: "\<forall>p \<in> set initial. kids parties ds p = {}"
  proof
    fix p assume "p \<in> set initial"
    then have "p \<in> set ds" and "(case counts p of None \<Rightarrow> 0 | Some n \<Rightarrow> n) = 0"
      unfolding assms(1,3) by auto
    then have "counted (childrenMap parties) ds p = 0"
      by (simp add: c)
    then show "kids parties ds p = {}" by (rule kids_counted_zero)
  qed
  show ?thesis
    using q z c kids_counted[of parties ds] by (simp add: reset_inv_def)
qed

lemma resetParties_order:
  "leaves_first parties
     (map party_id (filter (\<lambda>party. removeRoots \<or> party_orgId party \<noteq> OrgNull) parties))
     (fst (resetParties server removeRoots parties))"
proof -
  let ?removable = "filter (\<lambda>party. removeRoots \<or> party_orgId party \<noteq> OrgNull) parties"
  let ?ds = "map party_id ?removable"
  show ?thesis
  proof (cases "parties = [] \<or> ?removable = []")
    case True
    then show ?thesis
      by (auto simp: resetParties_def leaves_first_def Let_def)
  next
    case False
    have dom: "\<forall>x \<in> set ?ds. partyById parties x \<noteq> None"
      using partyById_defined[of _ parties] by auto
    have ids: "\<forall>x party. partyById parties x = Some party \<longrightarrow>
                 party \<in> set parties \<and> party_id party = x"
      using partyById_found by blast
    have e: "resetParties server removeRoots parties =
          resetLoop server (partyById parties) ?ds
            \<lparr>queue = rev (map party_id
                 (filter (\<lambda>party.
                    (case fold (count_children (childrenMap parties) ?ds) ?removable Map.empty
                            (party_id party) of None \<Rightarrow> 0 | Some n \<Rightarrow> n) = 0)
                  ?removable)),
             processed = {},
             childCount = fold (count_children (childrenMap parties) ?ds) ?removable Map.empty,
             submitted = []\<rparr>"
      using False by (simp add: resetParties_def Let_def del: filter_filter)
    show ?thesis
      unfolding e
      by (rule resetLoop_leaves_first[OF initial_inv[OF refl refl refl] dom ids])
  qed
qed

text \<open>
  C10. The identifiers the reset command submits for deletion are leaves first: when a
  party is submitted, every party of the deletable set whose \<open>orgId\<close> is that party has
  been submitted before (a parent enters the queue only when its count of deletable
  children has reached zero, and the count is never below the number of children still
  to be deleted); no identifier is submitted twice; only identifiers of the deletable set
  are submitted, and without \<open>--remove-roots\<close> no party with \<open>orgId\<close> \<open>null\<close> is in that
  set. Identifiers are not empty, and for the last part they are distinct.
\<close>

theorem resetParties_leaves_first:
  assumes "\<forall>party \<in> set parties. party_id party \<noteq> []"
  shows
    "distinct (fst (resetParties server removeRoots parties)) \<and>
     set (fst (resetParties server removeRoots parties)) \<subseteq>
       party_id ` {party \<in> set parties. removeRoots \<or> party_orgId party \<noteq> OrgNull} \<and>
     (\<forall>pre p post child.
        fst (resetParties server removeRoots parties) = pre @ p # post \<longrightarrow>
        child \<in> set parties \<longrightarrow> party_orgId child = OrgId p \<longrightarrow>
        (removeRoots \<or> party_orgId child \<noteq> OrgNull) \<longrightarrow>
        party_id child \<in> set pre) \<and>
     (distinct (map party_id parties) \<longrightarrow> \<not> removeRoots \<longrightarrow>
      (\<forall>root \<in> set parties. party_orgId root = OrgNull \<longrightarrow>
         party_id root \<notin> set (fst (resetParties server removeRoots parties))))"
proof -
  let ?removable = "filter (\<lambda>party. removeRoots \<or> party_orgId party \<noteq> OrgNull) parties"
  let ?ds = "map party_id ?removable"
  let ?trace = "fst (resetParties server removeRoots parties)"
  have lf: "leaves_first parties ?ds ?trace"
    by (rule resetParties_order)
  have sub: "set ?trace \<subseteq> party_id ` {party \<in> set parties. removeRoots \<or> party_orgId party \<noteq> OrgNull}"
    using lf by (auto simp: leaves_first_def)
  have ord: "\<forall>pre p post child.
        ?trace = pre @ p # post \<longrightarrow>
        child \<in> set parties \<longrightarrow> party_orgId child = OrgId p \<longrightarrow>
        (removeRoots \<or> party_orgId child \<noteq> OrgNull) \<longrightarrow>
        party_id child \<in> set pre"
  proof (intro allI impI)
    fix pre p post child
    assume t: "?trace = pre @ p # post" and c: "child \<in> set parties"
      and o: "party_orgId child = OrgId p"
      and r: "removeRoots \<or> party_orgId child \<noteq> OrgNull"
    have "p \<in> set ?trace" using t by simp
    with sub obtain party where "party \<in> set parties" "party_id party = p" by auto
    with assms have "p \<noteq> []" by auto
    with o have "parent_of child = Some p" by simp
    moreover have "party_id child \<in> set ?ds" using c r by auto
    ultimately have "party_id child \<in> kids parties ?ds p"
      using c unfolding kids_def by blast
    moreover have "kids parties ?ds p \<subseteq> set pre"
      using lf t unfolding leaves_first_def by blast
    ultimately show "party_id child \<in> set pre" by blast
  qed
  have roots: "distinct (map party_id parties) \<longrightarrow> \<not> removeRoots \<longrightarrow>
      (\<forall>root \<in> set parties. party_orgId root = OrgNull \<longrightarrow> party_id root \<notin> set ?trace)"
  proof (intro impI ballI)
    fix root
    assume d: "distinct (map party_id parties)" and n: "\<not> removeRoots"
      and m: "root \<in> set parties" and o: "party_orgId root = OrgNull"
    show "party_id root \<notin> set ?trace"
    proof
      assume "party_id root \<in> set ?trace"
      with sub n obtain party where p: "party \<in> set parties" "party_orgId party \<noteq> OrgNull"
        "party_id party = party_id root" by auto
      with d m have "party = root"
        by (meson distinct_map inj_onD)
      with p o show False by simp
    qed
  qed
  show ?thesis
    using lf sub ord roots by (simp add: leaves_first_def)
qed

theorem resetParties_leaves_first_witness:
  "[] \<notin> set (map party_id
          [\<lparr>party_id = ''root'', party_orgId = OrgNull\<rparr>,
           \<lparr>party_id = ''a'', party_orgId = OrgId ''root''\<rparr>,
           \<lparr>party_id = ''b'', party_orgId = OrgId ''a''\<rparr>,
           \<lparr>party_id = ''c'', party_orgId = OrgId ''a''\<rparr>,
           \<lparr>party_id = ''d'', party_orgId = OrgId ''root''\<rparr>]) \<and>
   fst (resetParties (\<lambda>h x. True) False
          [\<lparr>party_id = ''root'', party_orgId = OrgNull\<rparr>,
           \<lparr>party_id = ''a'', party_orgId = OrgId ''root''\<rparr>,
           \<lparr>party_id = ''b'', party_orgId = OrgId ''a''\<rparr>,
           \<lparr>party_id = ''c'', party_orgId = OrgId ''a''\<rparr>,
           \<lparr>party_id = ''d'', party_orgId = OrgId ''root''\<rparr>]) = [''d'', ''c'', ''b'', ''a''] \<and>
   [''d'', ''c'', ''b'', ''a''] = [''d'', ''c'', ''b''] @ ''a'' # [] \<and>
   party_orgId \<lparr>party_id = ''b'', party_orgId = OrgId ''a''\<rparr> = OrgId ''a'' \<and>
   party_id \<lparr>party_id = ''b'', party_orgId = OrgId ''a''\<rparr> \<in> set [''d'', ''c'', ''b''] \<and>
   distinct (map party_id
          [\<lparr>party_id = ''root'', party_orgId = OrgNull\<rparr>,
           \<lparr>party_id = ''a'', party_orgId = OrgId ''root''\<rparr>,
           \<lparr>party_id = ''b'', party_orgId = OrgId ''a''\<rparr>,
           \<lparr>party_id = ''c'', party_orgId = OrgId ''a''\<rparr>,
           \<lparr>party_id = ''d'', party_orgId = OrgId ''root''\<rparr>]) \<and>
   ''root'' \<notin> set (fst (resetParties (\<lambda>h x. True) False
          [\<lparr>party_id = ''root'', party_orgId = OrgNull\<rparr>,
           \<lparr>party_id = ''a'', party_orgId = OrgId ''root''\<rparr>,
           \<lparr>party_id = ''b'', party_orgId = OrgId ''a''\<rparr>,
           \<lparr>party_id = ''c'', party_orgId = OrgId ''a''\<rparr>,
           \<lparr>party_id = ''d'', party_orgId = OrgId ''root''\<rparr>]))"
proof -
  let ?ps = "[\<lparr>party_id = ''root'', party_orgId = OrgNull\<rparr>,
           \<lparr>party_id = ''a'', party_orgId = OrgId ''root''\<rparr>,
           \<lparr>party_id = ''b'', party_orgId = OrgId ''a''\<rparr>,
           \<lparr>party_id = ''c'', party_orgId = OrgId ''a''\<rparr>,
           \<lparr>party_id = ''d'', party_orgId = OrgId ''root''\<rparr>]"
  have h: "\<forall>party \<in> set ?ps. party_id party \<noteq> []"
    by simp
  have t: "fst (resetParties (\<lambda>h x. True) False ?ps) = [''d'', ''c'', ''b'', ''a'']"
    by code_simp
  show ?thesis
    using h t resetParties_leaves_first[OF h, of "\<lambda>h x. True" False]
    by simp
qed

section \<open>Properties of hot reload\<close>

text \<open>
  C7. A failed reload is to keep the previous state. \<open>reloadResources\<close> installs the new
  application state and clears the handler cache before it recomputes the fingerprint,
  inside the same \<open>try\<close>: when the application state builds and the fingerprint raises
  (\<open>readdirSync\<close> is not guarded), the reload is logged as failed and returns \<open>false\<close>, and
  the server goes on with the new state, the empty cache and the old fingerprint. A reload
  that fails while the application state is built does keep everything but the log.
\<close>

theorem reloadResources_failed_after_install:
  "(buildAppState fs = Inr nextState \<longrightarrow> fingerprintResources fs root = Inl e \<longrightarrow>
      reloadResources buildAppState root fs trigger st =
        (st\<lparr>currentState := nextState, handlerCache := [],
            logged := logged st @
              [(''error'', ''Reload failed ('' @ trigger @ ''): '' @ error_message e)]\<rparr>,
         False)) \<and>
   (buildAppState fs = Inl e' \<longrightarrow>
      reloadResources buildAppState root fs trigger st =
        (st\<lparr>logged := logged st @
              [(''error'', ''Reload failed ('' @ trigger @ ''): '' @ error_message e')]\<rparr>,
         False))"
  by (simp add: reloadResources_def Let_def)

theorem reloadResources_failed_after_install_witness:
  "fingerprintResources example_fs ''/r'' =
     Inl (Error ''EACCES: permission denied, scandir /r/private'') \<and>
   snd (reloadResources (\<lambda>fs. Inr 9) ''/r'' example_fs ''manual'' example_server) = False \<and>
   currentState (fst (reloadResources (\<lambda>fs. Inr 9) ''/r'' example_fs ''manual'' example_server)) = 9 \<and>
   currentState example_server = 5 \<and>
   handlerCache (fst (reloadResources (\<lambda>fs. Inr 9) ''/r'' example_fs ''manual'' example_server)) = [] \<and>
   logged (fst (reloadResources (\<lambda>fs. Inr 9) ''/r'' example_fs ''manual'' example_server)) =
     [(''error'', ''Reload failed (manual): EACCES: permission denied, scandir /r/private'')]"
proof -
  have f: "fingerprintResources example_fs ''/r'' =
             Inl (Error ''EACCES: permission denied, scandir /r/private'')"
    by code_simp
  show ?thesis
    using f reloadResources_failed_after_install[of "\<lambda>fs. Inr 9" example_fs 9 "''/r''"
        "Error ''EACCES: permission denied, scandir /r/private''" "''manual''" example_server]
    by (simp add: example_server_def)
qed

section \<open>Properties of the order of execution\<close>

lemma run_in_order_append:
  "run_in_order W (xs @ ys) h =
     (case run_in_order W xs h of
        (h1, Inl e) \<Rightarrow> (h1, Inl e)
      | (h1, Inr u) \<Rightarrow> run_in_order W ys h1)"
  by (induction xs arbitrary: h) (auto split: prod.splits sum.splits)

lemma seedRows_single:
  "seedRows W runtime db table upsertBy (row # rest) h =
     (case seedRows W runtime db table upsertBy [row] h of
        (h1, Inl e) \<Rightarrow> (h1, Inl e)
      | (h1, Inr u) \<Rightarrow> seedRows W runtime db table upsertBy rest h1)"
  by (auto split: prod.splits sum.splits)

lemma seedRows_items:
  "seedRows W runtime db table upsertBy rows h =
   run_in_order W (map (InsertRow runtime db table upsertBy) rows) h"
proof (induction rows arbitrary: h)
  case Nil
  show ?case by simp
next
  case (Cons row rows)
  show ?case
    by (subst seedRows_single) (simp add: Cons del: seedRows.simps split: prod.splits sum.splits)
qed

lemma table_step:
  "applyTableSeeds W runtime db (entry # rest) h =
     (case run_in_order W (spec_table_items runtime db entry) h of
        (h1, Inl e) \<Rightarrow> (h1, Inl e)
      | (h1, Inr u) \<Rightarrow> applyTableSeeds W runtime db rest h1)"
proof (cases entry)
  case (Pair table config)
  show ?thesis
    unfolding Pair spec_table_items_def applyTableSeeds.simps Let_def fst_conv snd_conv
    by (simp add: seedRows_items del: seedRows.simps split: sum.splits prod.splits)
qed

lemma applyTableSeeds_items:
  "applyTableSeeds W runtime db tables h =
   run_in_order W (concat (map (spec_table_items runtime db) tables)) h"
proof (induction tables arbitrary: h)
  case Nil
  show ?case by simp
next
  case (Cons entry rest)
  show ?case
    by (subst table_step)
       (simp add: run_in_order_append Cons del: applyTableSeeds.simps split: prod.splits sum.splits)
qed

lemma operation_step:
  "applyOperation W runtime db operation h =
   run_in_order W (spec_operation_items runtime db operation) h"
proof -
  have single: "run_in_order W [RunOperation runtime db operation] h =
                applyOperation W runtime db operation h"
    by (auto split: prod.splits sum.splits)
  show ?thesis
  proof (cases "read_prop operation ''table''")
    case (Inl e)
    then show ?thesis by (simp add: spec_operation_items_def applyOperation_def)
  next
    case (Inr table)
    show ?thesis
    proof (cases "truthy table \<and>
                  (js_get operation ''type'' = JStr ''insert'' \<or>
                   js_get operation ''type'' = JStr ''upsert'')")
      case True
      then show ?thesis
        unfolding spec_operation_items_def applyOperation_def Let_def Inr
        by (auto simp: seedRows_items simp del: seedRows.simps split: sum.splits)
    next
      case False
      then have "spec_operation_items runtime db operation = [RunOperation runtime db operation]"
        using Inr by (auto simp: spec_operation_items_def)
      then show ?thesis using single by simp
    qed
  qed
qed

lemma applySeedOperations_items:
  "applySeedOperations W runtime db operations h =
   run_in_order W (concat (map (spec_operation_items runtime db) operations)) h"
proof (induction operations arbitrary: h)
  case Nil
  show ?case by simp
next
  case (Cons operation rest)
  show ?case
    using operation_step[of W runtime db operation]
    by (simp add: run_in_order_append Cons split: prod.splits sum.splits)
qed

lemma applyYamlSeedForDatabase_items:
  "applyYamlSeedForDatabase W runtime db (Some tables) (Some operations) h =
   run_in_order W (spec_scope_items runtime db tables operations) h"
proof -
  have t: "tables = [] \<Longrightarrow> run_in_order W (concat (map (spec_table_items runtime db) tables)) h
             = (h, Inr ())"
    by simp
  have o: "operations = [] \<Longrightarrow>
             run_in_order W (concat (map (spec_operation_items runtime db) operations)) g
             = (g, Inr ())" for g
    by simp
  show ?thesis
    unfolding applyYamlSeedForDatabase_def spec_scope_items_def run_in_order_append
      applyTableSeeds_items applySeedOperations_items Let_def
    using t o
    by (cases "tables = []"; cases "operations = []")
       (auto split: prod.splits sum.splits)
qed

lemma applyDatabaseEntry_items:
  "applyDatabaseEntry W env options globalVariables entry h =
   run_in_order W (spec_entry_items env options globalVariables entry) h"
  unfolding applyDatabaseEntry_def spec_entry_items_def Let_def
    entry_db_def entry_target_def entry_runtime_def entry_variables_def
  by (rule applyYamlSeedForDatabase_items)

lemma applyDatabases_items:
  "applyDatabases W env options globalVariables entries h =
   run_in_order W (concat (map (spec_entry_items env options globalVariables) entries)) h"
proof (induction entries arbitrary: h)
  case Nil
  show ?case by simp
next
  case (Cons entry rest)
  show ?case
    by (simp add: run_in_order_append applyDatabaseEntry_items Cons split: prod.splits sum.splits)
qed

lemma default_items_empty:
  assumes "\<not> ((case y_tables seed of None \<Rightarrow> False | Some ts \<Rightarrow> length ts > 0) \<or>
              (case y_operations seed of None \<Rightarrow> False | Some os \<Rightarrow> length os > 0))"
  shows "spec_default_items env options seed = []"
  using assms
  by (auto simp: spec_default_items_def spec_scope_items_def split: option.splits)

lemma default_items_run:
  "applyYamlSeedForDatabase W
     (resolvePostgresRuntime env
        \<lparr>o_service = s_service options, o_user = s_user options,
         o_composeDir = s_composeDir options, o_target = s_target options, o_adminDb = None\<rparr>
        (Some (case s_db options of Some d \<Rightarrow> d | None \<Rightarrow> ''postgres'')))
     (case s_db options of Some d \<Rightarrow> d | None \<Rightarrow> ''postgres'')
     (Some (object_entries
        (applySeedVariables (JObj (case y_tables seed of None \<Rightarrow> [] | Some ts \<Rightarrow> ts))
           (case y_variables seed of None \<Rightarrow> [] | Some vs \<Rightarrow> vs))))
     (Some (array_items
        (applySeedVariables (JArr (case y_operations seed of None \<Rightarrow> [] | Some os \<Rightarrow> os))
           (case y_variables seed of None \<Rightarrow> [] | Some vs \<Rightarrow> vs))))
     h =
   run_in_order W (spec_default_items env options seed) h"
  unfolding spec_default_items_def by (rule applyYamlSeedForDatabase_items)

text \<open>
  C3. A seed run is strictly sequential, with no reordering: for every document, what
  \<open>applyYamlSeed\<close> does to the database, statement by statement and up to the first
  failure, is what carrying out the specified sequence in order does. That sequence has the top-level (default)
  payload before every entry of \<open>databases\<close>, the entries in their entry order, and within
  one scope every row of every table (tables in entry order, rows in listed order) before
  the first operation, the operations in listed order.
\<close>

theorem applyYamlSeed_sequential:
  "applyYamlSeed W env options seed h = run_in_order W (spec_order env options seed) h"
proof -
  let ?default = "(case y_tables seed of None \<Rightarrow> False | Some ts \<Rightarrow> length ts > 0) \<or>
                  (case y_operations seed of None \<Rightarrow> False | Some os \<Rightarrow> length os > 0)"
  let ?g = "case y_variables seed of None \<Rightarrow> [] | Some vs \<Rightarrow> vs"
  let ?ds = "case y_databases seed of None \<Rightarrow> [] | Some ds \<Rightarrow> ds"
  have dbs: "(case y_databases seed of
                None \<Rightarrow> (h1, Inr ())
              | Some ds \<Rightarrow>
                  if (case y_databases seed of None \<Rightarrow> False | Some ds \<Rightarrow> length ds > 0)
                  then applyDatabases W env options ?g ds h1
                  else (h1, Inr ())) =
             run_in_order W (concat (map (spec_entry_items env options ?g) ?ds)) h1" for h1
    by (cases "y_databases seed") (auto simp: applyDatabases_items)
  show ?thesis
  proof (cases ?default)
    case True
    show ?thesis
      unfolding applyYamlSeed_def Let_def spec_order_def run_in_order_append
      using True dbs
      by (simp only: default_items_run if_True if_False simp_thms)
  next
    case False
    have e: "spec_default_items env options seed = []"
      by (rule default_items_empty[OF False])
    have none: "\<not> (case y_databases seed of None \<Rightarrow> False | Some ds \<Rightarrow> length ds > 0) \<Longrightarrow>
                concat (map (spec_entry_items env options ?g) ?ds) = []"
      by (cases "y_databases seed") auto
    show ?thesis
      unfolding applyYamlSeed_def Let_def spec_order_def e
      using False dbs none
      by (cases "case y_databases seed of None \<Rightarrow> False | Some ds \<Rightarrow> length ds > 0")
         (simp_all split: option.splits)
  qed
qed

theorem applyYamlSeed_sequential_witness:
  "applyYamlSeed example_world example_env example_options example_seed [] =
     run_in_order example_world (spec_order example_env example_options example_seed) [] \<and>
   map (\<lambda>ev. (event_db ev, event_sql ev))
     (fst (applyYamlSeed example_world example_env example_options example_seed [])) =
   [(''postgres'',
     ''INSERT INTO '' @ quoteIdentifier ''Party'' @ '' ('' @ quoteIdentifier ''name'' @
     '') VALUES ('' @ sql_quote ''main'' @ '') ON CONFLICT ('' @ quoteIdentifier ''name'' @
     '') DO NOTHING;''),
    (''postgres'',
     ''INSERT INTO '' @ quoteIdentifier ''Party'' @ '' ('' @ quoteIdentifier ''name'' @
     '') VALUES ('' @ sql_quote ''b'' @ '') ON CONFLICT ('' @ quoteIdentifier ''name'' @
     '') DO NOTHING;''),
    (''postgres'',
     ''DELETE FROM '' @ quoteIdentifier ''Account'' @ '' WHERE '' @ quoteIdentifier ''ref'' @
     '' = '' @ sql_quote ''x'' @ '';''),
    (''wallet'',
     ''INSERT INTO '' @ quoteIdentifier ''Party'' @ '' ('' @ quoteIdentifier ''name'' @
     '') VALUES ('' @ sql_quote ''w'' @ '');'')] \<and>
   map (\<lambda>ev. (event_db ev, event_sql ev))
     (fst (applyYamlSeed example_world example_env example_options example_loose [])) =
   [(''postgres'',
     ''INSERT INTO '' @ quoteIdentifier ''A'' @ '' ('' @ quoteIdentifier ''id'' @
     '') VALUES (1);''),
    (''postgres'',
     ''INSERT INTO '' @ quoteIdentifier ''C'' @ '' ('' @ quoteIdentifier ''id'' @
     '') VALUES (2);'')] \<and>
   snd (applyYamlSeed example_world example_env example_options example_loose []) = Inr ()"
proof -
  have a: "applyYamlSeed example_world example_env example_options example_seed [] =
     run_in_order example_world (spec_order example_env example_options example_seed) []"
    by (rule applyYamlSeed_sequential)
  have b: "map (\<lambda>ev. (event_db ev, event_sql ev))
     (fst (run_in_order example_world (spec_order example_env example_options example_seed) [])) =
   [(''postgres'',
     ''INSERT INTO '' @ quoteIdentifier ''Party'' @ '' ('' @ quoteIdentifier ''name'' @
     '') VALUES ('' @ sql_quote ''main'' @ '') ON CONFLICT ('' @ quoteIdentifier ''name'' @
     '') DO NOTHING;''),
    (''postgres'',
     ''INSERT INTO '' @ quoteIdentifier ''Party'' @ '' ('' @ quoteIdentifier ''name'' @
     '') VALUES ('' @ sql_quote ''b'' @ '') ON CONFLICT ('' @ quoteIdentifier ''name'' @
     '') DO NOTHING;''),
    (''postgres'',
     ''DELETE FROM '' @ quoteIdentifier ''Account'' @ '' WHERE '' @ quoteIdentifier ''ref'' @
     '' = '' @ sql_quote ''x'' @ '';''),
    (''wallet'',
     ''INSERT INTO '' @ quoteIdentifier ''Party'' @ '' ('' @ quoteIdentifier ''name'' @
     '') VALUES ('' @ sql_quote ''w'' @ '');'')]"
    by code_simp
  have c: "applyYamlSeed example_world example_env example_options example_loose [] =
     run_in_order example_world (spec_order example_env example_options example_loose) []"
    by (rule applyYamlSeed_sequential)
  have d: "map (\<lambda>ev. (event_db ev, event_sql ev))
     (fst (run_in_order example_world (spec_order example_env example_options example_loose) [])) =
   [(''postgres'',
     ''INSERT INTO '' @ quoteIdentifier ''A'' @ '' ('' @ quoteIdentifier ''id'' @
     '') VALUES (1);''),
    (''postgres'',
     ''INSERT INTO '' @ quoteIdentifier ''C'' @ '' ('' @ quoteIdentifier ''id'' @
     '') VALUES (2);'')]"
    "snd (run_in_order example_world (spec_order example_env example_options example_loose) []) =
       Inr ()"
    by code_simp+
  show ?thesis
    unfolding a c using b d by simp
qed

section \<open>Properties of the database scopes\<close>



























end
